theory Spec2Isabelle
  imports Complex_Main "HOL-Library.Multiset" "HOL-Library.AList"
begin

section \<open>Personal expense tracker: data model\<close>

text \<open>
  The source is one Python module holding the classes \<open>Transaction\<close> and
  \<open>ExpenseTracker\<close> (and, below them, the same program with Spanish identifiers).
  The embedding follows the English classes, which are the ones the claims cite.

  Values are typed as the source annotates them: \<open>transaction_type: str\<close>,
  \<open>category: str\<close>, \<open>amount: float\<close>.
\<close>

subsection \<open>Amounts\<close>

text \<open>
  An amount is a Python \<open>float\<close>: a finite value, an infinity or NaN. A finite value
  is held as the rational it is (every finite \<open>float\<close> is one, and so is every \<open>int\<close> that
  is passed where a \<open>float\<close> is expected); the sign of a zero is not held.

  The comparisons are Python's: they are exact, and every comparison with NaN is false,
  so \<open>\<le>\<close> and \<open><\<close> on this type are no order. Addition and subtraction follow Python on
  the infinities and NaN; on finite values \<open>+\<close> and \<open>-\<close> are the exact operations, without
  the rounding of binary64, which subsection \<open>Rounded sums\<close> adds.
\<close>

datatype pyfloat = Finite rat | PosInf | NegInf | NaN

instantiation pyfloat :: "{zero, one, plus, uminus, minus, ord}"
begin

definition zero_pyfloat :: pyfloat where
  "zero_pyfloat = Finite 0"

definition one_pyfloat :: pyfloat where
  "one_pyfloat = Finite 1"

fun plus_pyfloat :: "pyfloat \<Rightarrow> pyfloat \<Rightarrow> pyfloat" where
  "plus_pyfloat NaN _ = NaN"
| "plus_pyfloat _ NaN = NaN"
| "plus_pyfloat (Finite a) (Finite b) = Finite (a + b)"
| "plus_pyfloat PosInf NegInf = NaN"
| "plus_pyfloat NegInf PosInf = NaN"
| "plus_pyfloat PosInf _ = PosInf"
| "plus_pyfloat _ PosInf = PosInf"
| "plus_pyfloat NegInf _ = NegInf"
| "plus_pyfloat _ NegInf = NegInf"

fun uminus_pyfloat :: "pyfloat \<Rightarrow> pyfloat" where
  "uminus_pyfloat (Finite a) = Finite (- a)"
| "uminus_pyfloat PosInf = NegInf"
| "uminus_pyfloat NegInf = PosInf"
| "uminus_pyfloat NaN = NaN"

definition minus_pyfloat :: "pyfloat \<Rightarrow> pyfloat \<Rightarrow> pyfloat" where
  "minus_pyfloat a b = a + (- b)"

fun less_eq_pyfloat :: "pyfloat \<Rightarrow> pyfloat \<Rightarrow> bool" where
  "less_eq_pyfloat NaN _ = False"
| "less_eq_pyfloat _ NaN = False"
| "less_eq_pyfloat (Finite a) (Finite b) = (a \<le> b)"
| "less_eq_pyfloat NegInf _ = True"
| "less_eq_pyfloat _ PosInf = True"
| "less_eq_pyfloat PosInf _ = False"
| "less_eq_pyfloat _ NegInf = False"

fun less_pyfloat :: "pyfloat \<Rightarrow> pyfloat \<Rightarrow> bool" where
  "less_pyfloat NaN _ = False"
| "less_pyfloat _ NaN = False"
| "less_pyfloat (Finite a) (Finite b) = (a < b)"
| "less_pyfloat PosInf _ = False"
| "less_pyfloat _ NegInf = False"
| "less_pyfloat NegInf _ = True"
| "less_pyfloat _ PosInf = True"

instance ..

end

text \<open>Addition is associative and commutative, and 0 is its unit: sums of amounts can
  be regrouped and reordered.\<close>

instance pyfloat :: comm_monoid_add
proof
  fix x y z :: pyfloat
  have unit: "Finite 0 + x = x"
    by (cases x) simp_all
  then show "0 + x = x"
    by (simp only: zero_pyfloat_def)
  show "x + y = y + x"
    by (cases x; cases y; simp)
  show "(x + y) + z = x + (y + z)"
    by (cases x; cases y; cases z; simp)
qed

text \<open>A numeral is the finite value of that number.\<close>

instance pyfloat :: numeral ..

subsection \<open>Exceptions, transactions and Python values\<close>

datatype exception =
    ValueError string
  | TypeError string
  | KeyError string
  | FileNotFoundError
  | PermissionError
  | JSONDecodeError
  | csv_Error string

record transaction =
  transaction_type :: string
  category :: string
  amount :: pyfloat

text \<open>Python values as far as \<open>to_dict\<close>, \<open>json.dump\<close> and \<open>json.load\<close> handle them.
  A dict is an association list in insertion order.\<close>

datatype json =
    JNull
  | JBool bool
  | JNum pyfloat
  | JStr string
  | JArr "json list"
  | JObj "(string \<times> json) list"

subsection \<open>class Transaction\<close>

text \<open>\<open>Transaction.__init__\<close>: the kind is checked first, then the amount; each check
  raises \<open>ValueError\<close> with its own message (\<open>quoted\<close> puts a text between
  apostrophes, as the first message does twice).\<close>

definition quoted :: "string \<Rightarrow> string" where
  "quoted s = [CHR 0x27] @ s @ [CHR 0x27]"

definition type_message :: string where
  "type_message = ''Type must be '' @ quoted ''income'' @ '' or '' @ quoted ''expense''"

definition amount_message :: string where
  "amount_message = ''Amount must be greater than 0''"

definition Transaction_init :: "string \<Rightarrow> string \<Rightarrow> pyfloat \<Rightarrow> exception + transaction" where
  "Transaction_init ttype cat amt =
     (if ttype \<notin> {''income'', ''expense''} then
        Inl (ValueError type_message)
      else if amt \<le> 0 then
        Inl (ValueError amount_message)
      else
        Inr \<lparr>transaction_type = ttype, category = cat, amount = amt\<rparr>)"

definition to_dict :: "transaction \<Rightarrow> (string \<times> json) list" where
  "to_dict t =
     [(''type'', JStr (transaction_type t)),
      (''category'', JStr (category t)),
      (''amount'', JNum (amount t))]"

subsection \<open>class ExpenseTracker: basic operations\<close>

record ExpenseTracker =
  transactions :: "transaction list"

definition ExpenseTracker_init :: ExpenseTracker where
  "ExpenseTracker_init = \<lparr>transactions = []\<rparr>"

text \<open>A method that returns \<open>None\<close> yields the exception it raised, if any, and the
  tracker as the call leaves it.\<close>

definition add_transaction ::
  "ExpenseTracker \<Rightarrow> string \<Rightarrow> string \<Rightarrow> pyfloat \<Rightarrow> exception option \<times> ExpenseTracker" where
  "add_transaction self ttype cat amt =
     (case Transaction_init ttype cat amt of
        Inl e \<Rightarrow> (Some e, self)
      | Inr t \<Rightarrow> (None, self\<lparr>transactions := transactions self @ [t]\<rparr>))"

text \<open>Python's \<open>sum\<close> adds from the left, starting at 0 (with the exact \<open>+\<close>; the same
  loops with the addition of binary64 are in subsection \<open>Rounded sums\<close>).\<close>

definition py_sum :: "pyfloat list \<Rightarrow> pyfloat" where
  "py_sum xs = foldl (+) 0 xs"

definition calculate_balance :: "ExpenseTracker \<Rightarrow> pyfloat" where
  "calculate_balance self =
     (let income = py_sum [amount t. t \<leftarrow> transactions self, transaction_type t = ''income''];
          expenses = py_sum [amount t. t \<leftarrow> transactions self, transaction_type t = ''expense'']
      in income - expenses)"

text \<open>\<open>summary.get(key, default)\<close> on a dict.\<close>

definition dict_get :: "(string \<times> pyfloat) list \<Rightarrow> string \<Rightarrow> pyfloat \<Rightarrow> pyfloat" where
  "dict_get d k dflt = (case map_of d k of None \<Rightarrow> dflt | Some v \<Rightarrow> v)"

text \<open>The loop of \<open>summary_by_category\<close>. Assigning \<open>summary[k] = v\<close> replaces the value
  of a key that is present, in place, and appends a key that is new, which is
  \<open>AList.update\<close>.\<close>

fun summary_loop ::
  "transaction list \<Rightarrow> (string \<times> pyfloat) list \<Rightarrow> (string \<times> pyfloat) list" where
  "summary_loop [] summary = summary"
| "summary_loop (t # ts) summary =
     summary_loop ts
       (if transaction_type t = ''expense'' then
          AList.update (category t) (dict_get summary (category t) 0 + amount t) summary
        else summary)"

definition summary_by_category :: "ExpenseTracker \<Rightarrow> (string \<times> pyfloat) list" where
  "summary_by_category self = summary_loop (transactions self) []"


subsection \<open>Rounded sums\<close>

text \<open>
  The sum of two \<open>float\<close>s is the binary64 number nearest to the exact sum, the one with
  the even significand when two are equally near (IEEE 754, round to nearest, ties to
  even). A binary64 number is a multiple \<open>m * 2 ^ e\<close> with \<open>m < 2 ^ 53\<close> and
  \<open>- 1074 \<le> e\<close>, below \<open>2 ^ 1024\<close>.

  \<open>bit_length n\<close> is the number of binary digits of \<open>n\<close>, and \<open>binade r\<close> is the exponent \<open>k\<close>
  with \<open>2 ^ k \<le> r < 2 ^ (k + 1)\<close>, for \<open>r\<close> above 0.
\<close>

function bit_length :: "int \<Rightarrow> int" where
  "bit_length n = (if n \<le> 0 then 0 else 1 + bit_length (n div 2))"
  by pat_completeness auto
termination
  by (relation "measure nat") auto

declare bit_length.simps [simp del]

definition binade :: "rat \<Rightarrow> int" where
  "binade r =
     (if 1 \<le> r then bit_length \<lfloor>r\<rfloor> - 1
      else - bit_length (\<lceil>1 / r\<rceil> - 1))"

definition pow2 :: "int \<Rightarrow> rat" where
  "pow2 e = (if 0 \<le> e then 2 ^ nat e else 1 / 2 ^ nat (- e))"

text \<open>The integer nearest to \<open>x\<close>, the even one of two that are equally near.\<close>

definition round_even :: "rat \<Rightarrow> int" where
  "round_even x =
     (let f = \<lfloor>x\<rfloor>; d = x - of_int f
      in if d < 1 / 2 then f
         else if 1 / 2 < d then f + 1
         else if even f then f else f + 1)"

text \<open>The binary64 number nearest to \<open>r\<close>: \<open>r\<close> is rounded to a multiple of \<open>2 ^ e\<close>, where
  \<open>e\<close> leaves 53 binary digits to the significand and is not below \<open>- 1074\<close>; the result
  overflows to an infinity when it reaches \<open>2 ^ 1024\<close>, which is when the digits of the
  significand and \<open>e\<close> add up to more than 1024.\<close>

definition round_binary64 :: "rat \<Rightarrow> pyfloat" where
  "round_binary64 r =
     (if r = 0 then Finite 0
      else
        let e = max (binade \<bar>r\<bar> - 52) (- 1074);
            m = round_even (\<bar>r\<bar> / pow2 e);
            v = of_int m * pow2 e
        in if 1024 < e + bit_length m then (if 0 < r then PosInf else NegInf)
           else Finite (if 0 < r then v else - v))"

text \<open>\<open>a + b\<close> and \<open>a - b\<close> on \<open>float\<close>s, and \<open>fabs\<close>.\<close>

fun fadd :: "pyfloat \<Rightarrow> pyfloat \<Rightarrow> pyfloat" where
  "fadd (Finite a) (Finite b) = round_binary64 (a + b)"
| "fadd a b = a + b"



text \<open>
  The two queries with the addition as a parameter: with \<open>+\<close> they are the functions
  above, with \<open>fadd\<close> they are what Python computes on \<open>float\<close>s. \<open>sum_with\<close> is \<open>sum\<close>
  as a loop of additions from 0, which is \<open>sum\<close> up to Python 3.11.
\<close>

definition sum_with :: "(pyfloat \<Rightarrow> pyfloat \<Rightarrow> pyfloat) \<Rightarrow> pyfloat list \<Rightarrow> pyfloat" where
  "sum_with add xs = foldl add 0 xs"

fun summary_loop_with ::
  "(pyfloat \<Rightarrow> pyfloat \<Rightarrow> pyfloat) \<Rightarrow> transaction list \<Rightarrow> (string \<times> pyfloat) list \<Rightarrow>
     (string \<times> pyfloat) list" where
  "summary_loop_with add [] summary = summary"
| "summary_loop_with add (t # ts) summary =
     summary_loop_with add ts
       (if transaction_type t = ''expense'' then
          AList.update (category t) (add (dict_get summary (category t) 0) (amount t)) summary
        else summary)"

definition summary_by_category_with ::
  "(pyfloat \<Rightarrow> pyfloat \<Rightarrow> pyfloat) \<Rightarrow> ExpenseTracker \<Rightarrow> (string \<times> pyfloat) list" where
  "summary_by_category_with add self = summary_loop_with add (transactions self) []"



text \<open>The two sums of \<open>calculate_balance\<close> and the method itself, with \<open>sum\<close> and the
  subtraction as parameters.\<close>

definition total_expenses :: "(pyfloat list \<Rightarrow> pyfloat) \<Rightarrow> ExpenseTracker \<Rightarrow> pyfloat" where
  "total_expenses sum_fn self =
     sum_fn [amount t. t \<leftarrow> transactions self, transaction_type t = ''expense'']"

definition total_income :: "(pyfloat list \<Rightarrow> pyfloat) \<Rightarrow> ExpenseTracker \<Rightarrow> pyfloat" where
  "total_income sum_fn self =
     sum_fn [amount t. t \<leftarrow> transactions self, transaction_type t = ''income'']"

definition calculate_balance_with ::
  "(pyfloat list \<Rightarrow> pyfloat) \<Rightarrow> (pyfloat \<Rightarrow> pyfloat \<Rightarrow> pyfloat) \<Rightarrow> ExpenseTracker \<Rightarrow>
     pyfloat" where
  "calculate_balance_with sum_fn sub self =
     (let income = total_income sum_fn self;
          expenses = total_expenses sum_fn self
      in sub income expenses)"


section \<open>Persistence\<close>

subsection \<open>Files and the console\<close>

text \<open>
  A path names no file, a file that cannot be opened (standing for every failure of
  \<open>open\<close> other than a missing file), or a text file. The console is the list of
  lines printed so far.
\<close>

datatype node = Absent | Denied | File string

record world =
  files :: "string \<Rightarrow> node"
  stdout :: "string list"

abbreviation CR :: char where "CR \<equiv> CHR 0x0D"
abbreviation LF :: char where "LF \<equiv> CHR 0x0A"

definition open_read :: "world \<Rightarrow> string \<Rightarrow> exception + string" where
  "open_read w filename =
     (case files w filename of
        Absent \<Rightarrow> Inl FileNotFoundError
      | Denied \<Rightarrow> Inl PermissionError
      | File text \<Rightarrow> Inr text)"

text \<open>\<open>open(filename, "w")\<close> creates or truncates the file, unless it cannot be opened.\<close>

definition open_write :: "world \<Rightarrow> string \<Rightarrow> exception option" where
  "open_write w filename =
     (case files w filename of Denied \<Rightarrow> Some PermissionError | _ \<Rightarrow> None)"

text \<open>Reading in text mode without a \<open>newline\<close> argument, as both load methods open
  their file, turns \<open>\r\n\<close> and a lone \<open>\r\<close> into \<open>\n\<close>. (Writing in that mode, as
  \<open>save_json\<close> does, leaves the text as it is where the line separator is \<open>\n\<close>, which
  is the platform modelled; \<open>save_csv\<close> passes \<open>newline=""\<close> and writes the text as it
  is everywhere.)\<close>

fun universal_newlines :: "string \<Rightarrow> string" where
  "universal_newlines [] = []"
| "universal_newlines [c] = (if c = CR then [LF] else [c])"
| "universal_newlines (c # d # cs) =
     (if c = CR \<and> d = LF then LF # universal_newlines cs
      else if c = CR then LF # universal_newlines (d # cs)
      else c # universal_newlines (d # cs))"

text \<open>Iterating over a text file yields its lines, each with its \<open>\n\<close>.\<close>

fun file_lines :: "string \<Rightarrow> string list" where
  "file_lines [] = []"
| "file_lines (c # cs) =
     (if c = LF then [LF] # file_lines cs
      else (case file_lines cs of [] \<Rightarrow> [[c]] | l # ls \<Rightarrow> (c # l) # ls))"

text \<open>A list comprehension whose element expression may raise: the first exception
  ends it.\<close>

fun comprehension :: "('a \<Rightarrow> exception + 'b) \<Rightarrow> 'a list \<Rightarrow> exception + 'b list" where
  "comprehension f [] = Inr []"
| "comprehension f (x # xs) =
     (case f x of
        Inl e \<Rightarrow> Inl e
      | Inr y \<Rightarrow> (case comprehension f xs of Inl e \<Rightarrow> Inl e | Inr ys \<Rightarrow> Inr (y # ys)))"

subsection \<open>JSON\<close>

text \<open>
  The \<open>json\<close> library is not part of the repository. Its two functions are parameters
  of the model: \<open>dumps\<close> is the text \<open>json.dump(\<dots>, indent=4)\<close> writes for a value, and
  \<open>loads\<close> is the value \<open>json.load\<close> reads from a text, \<open>None\<close> when it raises
  \<open>JSONDecodeError\<close>.
\<close>

definition save_json ::
  "(json \<Rightarrow> string) \<Rightarrow> ExpenseTracker \<Rightarrow> string \<Rightarrow> world \<Rightarrow> exception option \<times> world" where
  "save_json dumps self filename w =
     (case open_write w filename of
        Some e \<Rightarrow> (Some e, w)
      | None \<Rightarrow>
          (None,
           w\<lparr>files := (files w)(filename :=
                 File (dumps (JArr (map (\<lambda>t. JObj (to_dict t)) (transactions self))))),
             stdout := stdout w @ [''Data saved to '' @ filename]\<rparr>))"

text \<open>The name of the type of a value, as the messages of \<open>TypeError\<close> give it. (The
  model holds every number as a \<open>float\<close>; a number that \<open>json.load\<close> reads as an \<open>int\<close> is
  named \<open>int\<close> by Python.)\<close>

fun type_name :: "json \<Rightarrow> string" where
  "type_name JNull = ''NoneType''"
| "type_name (JBool _) = ''bool''"
| "type_name (JNum _) = ''float''"
| "type_name (JStr _) = ''str''"
| "type_name (JArr _) = ''list''"
| "type_name (JObj _) = ''dict''"

text \<open>\<open>for item in data\<close>: a list yields its elements, a dict its keys, a string its
  characters; nothing else that \<open>json.load\<close> returns can be iterated.\<close>

fun py_iter :: "json \<Rightarrow> exception + json list" where
  "py_iter (JArr xs) = Inr xs"
| "py_iter (JObj kvs) = Inr (map (\<lambda>kv. JStr (fst kv)) kvs)"
| "py_iter (JStr s) = Inr (map (\<lambda>c. JStr [c]) s)"
| "py_iter v = Inl (TypeError (quoted (type_name v) @ '' object is not iterable''))"

text \<open>The values of Python that fit the annotations \<open>str\<close> and \<open>float\<close> (an \<open>int\<close>, and
  so a \<open>bool\<close>, is accepted where a \<open>float\<close> is expected).\<close>

fun as_str :: "json \<Rightarrow> string option" where
  "as_str (JStr s) = Some s"
| "as_str _ = None"

fun as_float :: "json \<Rightarrow> pyfloat option" where
  "as_float (JNum x) = Some x"
| "as_float (JBool b) = Some (Finite (if b then 1 else 0))"
| "as_float _ = None"

definition init_params :: "string list" where
  "init_params = [''transaction_type'', ''category'', ''amount'']"

text \<open>
  The model is typed by the annotations, which Python does not check. A call of the
  constructor on values of Python runs the checks of \<open>__init__\<close> as Python does: a kind
  that is no string is not one of the two kinds, and an amount that is no number cannot
  be compared with 0, which raises \<open>TypeError\<close>. The one departure is a category that is no
  string: when the checks pass, Python stores it as it is, and the model, whose
  categories are strings, refuses it with a \<open>TypeError\<close>.
\<close>

text \<open>The message of \<open>amount <= 0\<close> on a value that is no number.\<close>

definition compare_message :: "json \<Rightarrow> string" where
  "compare_message v =
     quoted ''<='' @ '' not supported between instances of '' @ quoted (type_name v) @
     '' and '' @ quoted ''int''"

definition Transaction_call :: "json \<Rightarrow> json \<Rightarrow> json \<Rightarrow> exception + transaction" where
  "Transaction_call a b c =
     (case as_str a of
        None \<Rightarrow> Inl (ValueError type_message)
      | Some ttype \<Rightarrow>
          (case as_float c of
             None \<Rightarrow>
               (if ttype \<notin> {''income'', ''expense''} then Inl (ValueError type_message)
                else Inl (TypeError (compare_message c)))
           | Some amt \<Rightarrow>
               (case as_str b of
                  Some cat \<Rightarrow> Transaction_init ttype cat amt
                | None \<Rightarrow>
                    (case Transaction_init ttype [] amt of
                       Inl e \<Rightarrow> Inl e
                     | Inr _ \<Rightarrow> Inl (TypeError ''category is not a str'')))))"

text \<open>
  The call \<open>Transaction(**item)\<close>: \<open>item\<close> must be a dict; each of its keys must name a
  parameter of \<open>__init__\<close>, and each parameter must be given.
\<close>

definition Transaction_kwargs :: "json \<Rightarrow> exception + transaction" where
  "Transaction_kwargs item =
     (case item of
        JObj kw \<Rightarrow>
          (case find (\<lambda>k. k \<notin> set init_params) (map fst kw) of
             Some k \<Rightarrow>
               Inl (TypeError (''__init__() got an unexpected keyword argument '' @ quoted k))
           | None \<Rightarrow>
               (case (map_of kw ''transaction_type'', map_of kw ''category'', map_of kw ''amount'') of
                  (Some a, Some b, Some c) \<Rightarrow> Transaction_call a b c
                | _ \<Rightarrow> Inl (TypeError ''__init__() missing required positional arguments'')))
      | _ \<Rightarrow> Inl (TypeError ''argument after ** must be a mapping''))"

text \<open>The \<open>try\<close> block of \<open>load_json\<close>, up to the assignment to \<open>self.transactions\<close>.\<close>

definition load_json_body ::
  "(string \<Rightarrow> json option) \<Rightarrow> string \<Rightarrow> world \<Rightarrow> exception + transaction list" where
  "load_json_body loads filename w =
     (case open_read w filename of
        Inl e \<Rightarrow> Inl e
      | Inr text \<Rightarrow>
          (case loads (universal_newlines text) of
             None \<Rightarrow> Inl JSONDecodeError
           | Some data \<Rightarrow>
               (case py_iter data of
                  Inl e \<Rightarrow> Inl e
                | Inr items \<Rightarrow> comprehension Transaction_kwargs items)))"

text \<open>\<open>load_json\<close>: \<open>except FileNotFoundError\<close> handles that exception alone; any other
  leaves the method, with the tracker as it was.\<close>

definition load_json ::
  "(string \<Rightarrow> json option) \<Rightarrow> ExpenseTracker \<Rightarrow> string \<Rightarrow> world \<Rightarrow>
     exception option \<times> ExpenseTracker \<times> world" where
  "load_json loads self filename w =
     (case load_json_body loads filename w of
        Inr ts \<Rightarrow>
          (None, self\<lparr>transactions := ts\<rparr>,
           w\<lparr>stdout := stdout w @ [''Data loaded from '' @ filename]\<rparr>)
      | Inl e \<Rightarrow>
          (if e = FileNotFoundError then
             (None, self\<lparr>transactions := []\<rparr>,
              w\<lparr>stdout := stdout w @ [''JSON file not found. Starting with empty list.'']\<rparr>)
           else (Some e, self, w)))"


subsection \<open>The csv module\<close>

text \<open>
  The writer and the reader of Python's \<open>csv\<close> module, for the default dialect
  (\<open>excel\<close>) that \<open>DictWriter\<close> and \<open>DictReader\<close> use here: delimiter \<open>,\<close>, quote
  character \<open>"\<close>, quotes doubled inside a quoted field, no escape character, minimal
  quoting, line terminator \<open>\r\n\<close>, not strict. The reader is the state machine of
  \<open>parse_process_char\<close> in CPython's \<open>Modules/_csv.c\<close>; the states that only an escape
  character reaches are left out.
\<close>

abbreviation delimiter :: char where "delimiter \<equiv> CHR '',''"
abbreviation quotechar :: char where "quotechar \<equiv> CHR 0x22"

definition field_limit :: nat where
  "field_limit = 131072"

text \<open>The writer quotes a field that holds the delimiter, the quote character or a
  character of the line terminator, and doubles the quote characters in it.\<close>

definition join_append_data :: "string \<Rightarrow> string" where
  "join_append_data s =
     (if filter (\<lambda>c. c = delimiter \<or> c = quotechar \<or> c = CR \<or> c = LF) s \<noteq> [] then
        [quotechar] @ concat (map (\<lambda>c. if c = quotechar then [c, c] else [c]) s) @ [quotechar]
      else s)"

fun join_fields :: "string list \<Rightarrow> string" where
  "join_fields [] = []"
| "join_fields [x] = x"
| "join_fields (x # y # ys) = x @ [delimiter] @ join_fields (y # ys)"

text \<open>\<open>writer.writerow\<close>: a row that is one empty field is written as \<open>""\<close>.\<close>

definition writerow :: "string list \<Rightarrow> string" where
  "writerow row =
     (if row = [[]] then [quotechar, quotechar]
      else join_fields (map join_append_data row)) @ [CR, LF]"

text \<open>The text the writer makes of a value: a string is itself, \<open>None\<close> is empty,
  anything else its \<open>str()\<close>. \<open>py_str\<close> is \<open>str\<close> on numbers, a parameter of the model.
  (A row of \<open>to_dict\<close> holds strings and numbers only.)\<close>

fun csv_text :: "(pyfloat \<Rightarrow> string) \<Rightarrow> json option \<Rightarrow> string" where
  "csv_text py_str (Some (JStr s)) = s"
| "csv_text py_str (Some (JNum x)) = py_str x"
| "csv_text py_str (Some (JBool b)) = (if b then ''True'' else ''False'')"
| "csv_text py_str _ = []"

definition fieldnames :: "string list" where
  "fieldnames = [''type'', ''category'', ''amount'']"

text \<open>\<open>DictWriter.writerow\<close>: the values of the row's dict in the order of the field
  names (the keys of \<open>to_dict\<close> are the field names, so no key is refused).\<close>

definition DictWriter_writerow :: "(pyfloat \<Rightarrow> string) \<Rightarrow> (string \<times> json) list \<Rightarrow> string" where
  "DictWriter_writerow py_str rowdict =
     writerow (map (\<lambda>k. csv_text py_str (map_of rowdict k)) fieldnames)"

definition save_csv ::
  "(pyfloat \<Rightarrow> string) \<Rightarrow> ExpenseTracker \<Rightarrow> string \<Rightarrow> world \<Rightarrow> exception option \<times> world" where
  "save_csv py_str self filename w =
     (case open_write w filename of
        Some e \<Rightarrow> (Some e, w)
      | None \<Rightarrow>
          (None,
           w\<lparr>files := (files w)(filename :=
                 File (writerow fieldnames @
                       concat (map (\<lambda>t. DictWriter_writerow py_str (to_dict t))
                                   (transactions self)))),
             stdout := stdout w @ [''Data saved to '' @ filename]\<rparr>))"

datatype parser_state =
  START_RECORD | START_FIELD | IN_FIELD | IN_QUOTED_FIELD | QUOTE_IN_QUOTED_FIELD | EAT_CRNL

text \<open>The parser of a reader: its state, the fields of the record read so far
  (\<open>self->fields\<close>) and the characters of the field being read (\<open>self->field\<close>).\<close>

record ReaderObj =
  state :: parser_state
  row_fields :: "string list"
  field :: string

definition parse_reset :: ReaderObj where
  "parse_reset = \<lparr>state = START_RECORD, row_fields = [], field = []\<rparr>"

definition parse_save_field :: "ReaderObj \<Rightarrow> ReaderObj" where
  "parse_save_field r = r\<lparr>row_fields := row_fields r @ [field r], field := []\<rparr>"

definition parse_add_char :: "ReaderObj \<Rightarrow> char \<Rightarrow> exception + ReaderObj" where
  "parse_add_char r c =
     (if length (field r) \<ge> field_limit then
        Inl (csv_Error ''field larger than field limit (131072)'')
      else Inr (r\<lparr>field := field r @ [c]\<rparr>))"

text \<open>The end of a field at a line break or at the end of the line (\<open>None\<close>).\<close>

definition end_of_line :: "ReaderObj \<Rightarrow> char option \<Rightarrow> ReaderObj" where
  "end_of_line r c =
     (parse_save_field r)\<lparr>state := (if c = None then START_RECORD else EAT_CRNL)\<rparr>"

definition is_newline :: "char option \<Rightarrow> bool" where
  "is_newline c = (c = Some LF \<or> c = Some CR)"

text \<open>State \<open>START_FIELD\<close>, which \<open>START_RECORD\<close> falls through to.\<close>

definition start_field :: "ReaderObj \<Rightarrow> char option \<Rightarrow> exception + ReaderObj" where
  "start_field r c =
     (case c of
        None \<Rightarrow> Inr (end_of_line r c)
      | Some ch \<Rightarrow>
          if is_newline c then Inr (end_of_line r c)
          else if ch = quotechar then Inr (r\<lparr>state := IN_QUOTED_FIELD\<rparr>)
          else if ch = delimiter then Inr (parse_save_field r)
          else (case parse_add_char r ch of
                  Inl e \<Rightarrow> Inl e
                | Inr r' \<Rightarrow> Inr (r'\<lparr>state := IN_FIELD\<rparr>)))"

definition parse_process_char :: "ReaderObj \<Rightarrow> char option \<Rightarrow> exception + ReaderObj" where
  "parse_process_char r c =
     (case state r of
        START_RECORD \<Rightarrow>
          (if c = None then Inr r
           else if is_newline c then Inr (r\<lparr>state := EAT_CRNL\<rparr>)
           else start_field (r\<lparr>state := START_FIELD\<rparr>) c)
      | START_FIELD \<Rightarrow> start_field r c
      | IN_FIELD \<Rightarrow>
          (case c of
             None \<Rightarrow> Inr (end_of_line r c)
           | Some ch \<Rightarrow>
               if is_newline c then Inr (end_of_line r c)
               else if ch = delimiter then Inr ((parse_save_field r)\<lparr>state := START_FIELD\<rparr>)
               else parse_add_char r ch)
      | IN_QUOTED_FIELD \<Rightarrow>
          (case c of
             None \<Rightarrow> Inr r
           | Some ch \<Rightarrow>
               if ch = quotechar then Inr (r\<lparr>state := QUOTE_IN_QUOTED_FIELD\<rparr>)
               else parse_add_char r ch)
      | QUOTE_IN_QUOTED_FIELD \<Rightarrow>
          (case c of
             None \<Rightarrow> Inr (end_of_line r c)
           | Some ch \<Rightarrow>
               if ch = quotechar then
                 (case parse_add_char r ch of
                    Inl e \<Rightarrow> Inl e
                  | Inr r' \<Rightarrow> Inr (r'\<lparr>state := IN_QUOTED_FIELD\<rparr>))
               else if ch = delimiter then Inr ((parse_save_field r)\<lparr>state := START_FIELD\<rparr>)
               else if is_newline c then Inr (end_of_line r c)
               else (case parse_add_char r ch of
                       Inl e \<Rightarrow> Inl e
                     | Inr r' \<Rightarrow> Inr (r'\<lparr>state := IN_FIELD\<rparr>)))
      | EAT_CRNL \<Rightarrow>
          (if c = None then Inr (r\<lparr>state := START_RECORD\<rparr>)
           else if is_newline c then Inr r
           else Inl (csv_Error ''new-line character seen in unquoted field'')))"

text \<open>One line of the input: its characters, then the end of the line.\<close>

fun parse_line :: "ReaderObj \<Rightarrow> string \<Rightarrow> exception + ReaderObj" where
  "parse_line r [] = parse_process_char r None"
| "parse_line r (c # cs) =
     (case parse_process_char r (Some c) of
        Inl e \<Rightarrow> Inl e
      | Inr r' \<Rightarrow> parse_line r' cs)"

text \<open>
  The rows a \<open>csv.reader\<close> yields from the lines of a file, and the error that ends
  the iteration, if any. \<open>Reader_iternext\<close> resets the parser and takes lines until the
  state is \<open>START_RECORD\<close> again; when the lines end inside a record, the record is
  returned as far as it goes.
\<close>

fun reader_rows :: "ReaderObj \<Rightarrow> string list \<Rightarrow> string list list \<times> exception option" where
  "reader_rows r [] =
     (if field r \<noteq> [] \<or> state r = IN_QUOTED_FIELD then
        ([row_fields (parse_save_field r)], None)
      else ([], None))"
| "reader_rows r (l # ls) =
     (case parse_line r l of
        Inl e \<Rightarrow> ([], Some e)
      | Inr r' \<Rightarrow>
          if state r' = START_RECORD then
            (case reader_rows parse_reset ls of (rows, e) \<Rightarrow> (row_fields r' # rows, e))
          else reader_rows r' ls)"

text \<open>
  \<open>DictReader\<close>: the first row gives the field names; a later row that is empty is
  skipped; a row becomes a dict from the field names to its values, the field names
  beyond a short row mapped to \<open>None\<close>. (The values beyond the field names go under the
  key \<open>None\<close>, which no lookup of this program uses.) A later field name of the same text
  overrides an earlier one.
\<close>

definition DictReader_row :: "string list \<Rightarrow> string list \<Rightarrow> (string \<rightharpoonup> string option)" where
  "DictReader_row names row =
     fold (\<lambda>k d. d(k \<mapsto> None)) (drop (length row) names)
       (map_of (rev (zip names (map Some row))))"

definition DictReader ::
  "string list \<Rightarrow> (string \<rightharpoonup> string option) list \<times> exception option" where
  "DictReader lines =
     (case reader_rows parse_reset lines of
        ([], e) \<Rightarrow> ([], e)
      | (names # rows, e) \<Rightarrow> (map (DictReader_row names) (filter (\<lambda>row. row \<noteq> []) rows), e))"

text \<open>
  The element expression of the comprehension in \<open>load_csv\<close>:
  \<open>Transaction(row["type"], row["category"], float(row["amount"]))\<close>. The arguments are
  evaluated from the left, before the call. \<open>py_float\<close> is \<open>float\<close> on a text, a parameter of
  the model, \<open>None\<close> where \<open>float\<close> raises \<open>ValueError\<close>. A kind that is \<open>None\<close> (the
  column is beyond a short row) is not one of the two kinds; a category that is \<open>None\<close> is
  refused as in \<open>Transaction_call\<close>, when the checks of \<open>__init__\<close> pass.
\<close>

text \<open>\<open>repr\<close> of a string, which the message of \<open>float\<close> holds: the text between
  apostrophes (between double quotes when it holds an apostrophe and no double quote),
  with the backslash, the quote, tab, line feed and carriage return escaped, and every
  other character that is not printable written as \<open>\xhh\<close>. A character stands for the
  code point of its number, so the printable ones are those from the space to \<open>~\<close> and
  those from 161 on but 173.\<close>

abbreviation backslash :: char where "backslash \<equiv> CHR 0x5C"

definition hex_digit :: "nat \<Rightarrow> char" where
  "hex_digit n = ''0123456789abcdef'' ! n"

definition printable :: "char \<Rightarrow> bool" where
  "printable c =
     (let n = (of_char c :: nat) in (32 \<le> n \<and> n < 127) \<or> (161 \<le> n \<and> n \<noteq> 173))"

definition repr_char :: "char \<Rightarrow> char \<Rightarrow> string" where
  "repr_char q c =
     (if c = q \<or> c = backslash then [backslash, c]
      else if c = CHR 0x09 then [backslash, CHR ''t'']
      else if c = LF then [backslash, CHR ''n'']
      else if c = CR then [backslash, CHR ''r'']
      else if printable c then [c]
      else [backslash, CHR ''x'',
            hex_digit ((of_char c :: nat) div 16), hex_digit ((of_char c :: nat) mod 16)])"

definition py_repr :: "string \<Rightarrow> string" where
  "py_repr s =
     (let q = (if CHR 0x27 \<in> set s \<and> CHR 0x22 \<notin> set s then CHR 0x22 else CHR 0x27)
      in [q] @ concat (map (repr_char q) s) @ [q])"

definition float_message :: "string \<Rightarrow> string" where
  "float_message s = ''could not convert string to float: '' @ py_repr s"

definition float_none_message :: string where
  "float_none_message =
     ''float() argument must be a string or a real number, not '' @ quoted ''NoneType''"

definition load_csv_row ::
  "(string \<Rightarrow> pyfloat option) \<Rightarrow> (string \<rightharpoonup> string option) \<Rightarrow> exception + transaction" where
  "load_csv_row py_float row =
     (case row ''type'' of
        None \<Rightarrow> Inl (KeyError ''type'')
      | Some ttype \<Rightarrow>
     (case row ''category'' of
        None \<Rightarrow> Inl (KeyError ''category'')
      | Some cat \<Rightarrow>
     (case row ''amount'' of
        None \<Rightarrow> Inl (KeyError ''amount'')
      | Some None \<Rightarrow> Inl (TypeError float_none_message)
      | Some (Some text) \<Rightarrow>
     (case py_float text of
        None \<Rightarrow> Inl (ValueError (float_message text))
      | Some amt \<Rightarrow>
     (case (ttype, cat) of
        (None, _) \<Rightarrow> Inl (ValueError type_message)
      | (Some ty, None) \<Rightarrow>
          (case Transaction_init ty [] amt of
             Inl e \<Rightarrow> Inl e
           | Inr _ \<Rightarrow> Inl (TypeError ''category is not a str''))
      | (Some ty, Some c) \<Rightarrow> Transaction_init ty c amt)))))"

text \<open>
  The \<open>try\<close> block of \<open>load_csv\<close>, up to the assignment. The reader is consumed row by
  row as the comprehension runs, so an exception of an earlier row comes before an error
  of the reader in a later line.
\<close>

definition load_csv_body ::
  "(string \<Rightarrow> pyfloat option) \<Rightarrow> string \<Rightarrow> world \<Rightarrow> exception + transaction list" where
  "load_csv_body py_float filename w =
     (case open_read w filename of
        Inl e \<Rightarrow> Inl e
      | Inr text \<Rightarrow>
          (case DictReader (file_lines (universal_newlines text)) of
             (rows, err) \<Rightarrow>
               (case comprehension (load_csv_row py_float) rows of
                  Inl e \<Rightarrow> Inl e
                | Inr ts \<Rightarrow> (case err of Some e \<Rightarrow> Inl e | None \<Rightarrow> Inr ts))))"

definition load_csv ::
  "(string \<Rightarrow> pyfloat option) \<Rightarrow> ExpenseTracker \<Rightarrow> string \<Rightarrow> world \<Rightarrow>
     exception option \<times> ExpenseTracker \<times> world" where
  "load_csv py_float self filename w =
     (case load_csv_body py_float filename w of
        Inr ts \<Rightarrow>
          (None, self\<lparr>transactions := ts\<rparr>,
           w\<lparr>stdout := stdout w @ [''Data loaded from '' @ filename]\<rparr>)
      | Inl e \<Rightarrow>
          (if e = FileNotFoundError then
             (None, self\<lparr>transactions := []\<rparr>,
              w\<lparr>stdout := stdout w @ [''CSV file not found. Starting with empty list.'']\<rparr>)
           else (Some e, self, w)))"


section \<open>Properties\<close>

subsection \<open>The invariant of the ledger\<close>

text \<open>A transaction with one of the two kinds and an amount above 0, which is the
  invariant of the claims, and a transaction as the check of the constructor lets it
  through: that check is \<open>amount <= 0\<close>, which is false of NaN.\<close>

definition valid_transaction :: "transaction \<Rightarrow> bool" where
  "valid_transaction t =
     (transaction_type t \<in> {''income'', ''expense''} \<and> amount t > 0)"

definition accepted_transaction :: "transaction \<Rightarrow> bool" where
  "accepted_transaction t =
     (transaction_type t \<in> {''income'', ''expense''} \<and> \<not> amount t \<le> 0)"

definition ledger_invariant :: "ExpenseTracker \<Rightarrow> bool" where
  "ledger_invariant self = list_all valid_transaction (transactions self)"

definition ledger_accepted :: "ExpenseTracker \<Rightarrow> bool" where
  "ledger_accepted self = list_all accepted_transaction (transactions self)"

subsection \<open>Example data\<close>

text \<open>The ledger that the module builds when it is run as a script.\<close>

definition example_tracker :: ExpenseTracker where
  "example_tracker =
     \<lparr>transactions =
        [\<lparr>transaction_type = ''income'', category = ''salary'', amount = 2500\<rparr>,
         \<lparr>transaction_type = ''expense'', category = ''food'', amount = 300\<rparr>,
         \<lparr>transaction_type = ''expense'', category = ''transportation'', amount = 150\<rparr>,
         \<lparr>transaction_type = ''expense'', category = ''entertainment'', amount = 200\<rparr>]\<rparr>"

definition empty_world :: world where
  "empty_world = \<lparr>files = (\<lambda>_. Absent), stdout = []\<rparr>"

text \<open>
  \<open>str\<close> and \<open>float\<close> as far as the examples go, to run the model on them: \<open>str_int\<close> is
  \<open>str\<close> on an amount that is a positive \<open>int\<close>, on an infinity and on NaN, and
  \<open>float_digits\<close> is \<open>float\<close> on a text of decimal digits and on \<open>nan\<close>; it is \<open>None\<close> on
  every other text, which is what \<open>float\<close> is on \<open>abc\<close>. The theorems below are stated
  for every pair of conversions.
\<close>

definition digit_chars :: string where
  "digit_chars = ''0123456789''"

function str_nat :: "nat \<Rightarrow> string" where
  "str_nat n =
     (if n < 10 then [digit_chars ! n]
      else str_nat (n div 10) @ [digit_chars ! (n mod 10)])"
  by pat_completeness auto
termination
  by (relation "measure id") auto

fun str_int :: "pyfloat \<Rightarrow> string" where
  "str_int (Finite x) = str_nat (nat \<lfloor>x\<rfloor>)"
| "str_int PosInf = ''inf''"
| "str_int NegInf = ''-inf''"
| "str_int NaN = ''nan''"

definition float_digits :: "string \<Rightarrow> pyfloat option" where
  "float_digits s =
     (if s = ''nan'' then Some NaN
      else if s \<noteq> [] \<and> list_all (\<lambda>c. c \<in> set digit_chars) s then
        Some (Finite (of_nat (foldl (\<lambda>n c. 10 * n + (of_char c - of_char (CHR ''0''))) 0 s)))
      else None)"

text \<open>A ledger of one expense whose category holds a carriage return, and the ledger
  that \<open>load_csv\<close> makes of its file.\<close>

definition cr_tracker :: ExpenseTracker where
  "cr_tracker =
     \<lparr>transactions =
        [\<lparr>transaction_type = ''expense'', category = ''a'' @ [CR] @ ''b'', amount = 5\<rparr>]\<rparr>"

definition lf_tracker :: ExpenseTracker where
  "lf_tracker =
     \<lparr>transactions =
        [\<lparr>transaction_type = ''expense'', category = ''a'' @ [LF] @ ''b'', amount = 5\<rparr>]\<rparr>"

text \<open>A ledger of one expense whose category holds a comma, quotes and a line feed.\<close>

definition quoted_tracker :: ExpenseTracker where
  "quoted_tracker =
     \<lparr>transactions =
        [\<lparr>transaction_type = ''expense'',
          category = ''food, '' @ [quotechar] @ ''out'' @ [quotechar] @ [LF] @ ''and in'',
          amount = 5\<rparr>]\<rparr>"

text \<open>A CSV file whose first row has an unknown kind and whose second row has an amount
  that is no number.\<close>

definition two_bad_rows :: string where
  "two_bad_rows =
     ''type,category,amount'' @ [LF] @ ''bonus,gift,1'' @ [LF] @ ''income,salary,abc'' @ [LF]"

text \<open>A ledger of one income, the document \<open>save_json\<close> passes to \<open>json.dump\<close> for it
  and the text \<open>json.dump\<close> writes for that document with \<open>indent=4\<close>. \<open>salary_dumps\<close> and
  \<open>salary_loads\<close> are \<open>json.dump\<close> and \<open>json.load\<close> as far as the examples go: the one
  document they save is written as that text, that text is read as the document, and the
  one other text they load, a CSV file, is no JSON.\<close>

definition salary_tracker :: ExpenseTracker where
  "salary_tracker =
     \<lparr>transactions =
        [\<lparr>transaction_type = ''income'', category = ''salary'', amount = 2500\<rparr>]\<rparr>"

definition salary_doc :: json where
  "salary_doc =
     JArr [JObj [(''type'', JStr ''income''), (''category'', JStr ''salary''),
                 (''amount'', JNum 2500)]]"

definition salary_text :: string where
  "salary_text =
     ''['' @ [LF] @
     ''    {'' @ [LF] @
     ''        '' @ [quotechar] @ ''type'' @ [quotechar] @ '': '' @
                    [quotechar] @ ''income'' @ [quotechar] @ '','' @ [LF] @
     ''        '' @ [quotechar] @ ''category'' @ [quotechar] @ '': '' @
                    [quotechar] @ ''salary'' @ [quotechar] @ '','' @ [LF] @
     ''        '' @ [quotechar] @ ''amount'' @ [quotechar] @ '': 2500'' @ [LF] @
     ''    }'' @ [LF] @
     '']''"

definition salary_dumps :: "json \<Rightarrow> string" where
  "salary_dumps v = salary_text"

definition salary_loads :: "string \<Rightarrow> json option" where
  "salary_loads s = (if s = salary_text then Some salary_doc else None)"

text \<open>The example ledger in the opposite order.\<close>

definition reversed_tracker :: ExpenseTracker where
  "reversed_tracker = \<lparr>transactions = rev (transactions example_tracker)\<rparr>"


definition file_world :: "string \<Rightarrow> world" where
  "file_world text = \<lparr>files = (\<lambda>_. File text), stdout = []\<rparr>"

definition denied_world :: world where
  "denied_world = \<lparr>files = (\<lambda>_. Denied), stdout = []\<rparr>"

text \<open>A ledger of one expense whose amount is NaN, and a CSV file with that row.\<close>

definition nan_tracker :: ExpenseTracker where
  "nan_tracker =
     \<lparr>transactions = [\<lparr>transaction_type = ''expense'', category = ''food'', amount = NaN\<rparr>]\<rparr>"

definition nan_rows :: string where
  "nan_rows = ''type,category,amount'' @ [LF] @ ''expense,food,nan'' @ [LF]"

text \<open>A JSON document of that expense under the names of the parameters of
  \<open>__init__\<close>, a text of it (\<open>json.dump\<close> writes NaN as \<open>NaN\<close>, and \<open>json.load\<close> reads it
  back), and \<open>json.load\<close> as far as this text goes.\<close>

definition nan_doc :: json where
  "nan_doc =
     JArr [JObj [(''transaction_type'', JStr ''expense''), (''category'', JStr ''food''),
                 (''amount'', JNum NaN)]]"

definition nan_text :: string where
  "nan_text =
     ''[{'' @ [quotechar] @ ''transaction_type'' @ [quotechar] @ '': '' @
              [quotechar] @ ''expense'' @ [quotechar] @ '', '' @
              [quotechar] @ ''category'' @ [quotechar] @ '': '' @
              [quotechar] @ ''food'' @ [quotechar] @ '', '' @
              [quotechar] @ ''amount'' @ [quotechar] @ '': NaN}]''"

definition nan_loads :: "string \<Rightarrow> json option" where
  "nan_loads s = (if s = nan_text then Some nan_doc else None)"

text \<open>A CSV file of one row that loads, and one whose second line is a field of one
  character more than the reader's limit.\<close>

definition salary_rows :: string where
  "salary_rows = ''type,category,amount'' @ [LF] @ ''income,salary,2500'' @ [LF]"

definition long_field_rows :: string where
  "long_field_rows =
     ''type,category,amount'' @ [LF] @ replicate (Suc field_limit) (CHR ''a'')"

text \<open>\<open>json.load\<close> on the texts \<open>null\<close> and \<open>[]\<close>, and on no other text.\<close>

definition literal_loads :: "string \<Rightarrow> json option" where
  "literal_loads s =
     (if s = ''null'' then Some JNull else if s = ''[]'' then Some (JArr []) else None)"








subsection \<open>What the csv reader gives back\<close>

text \<open>The characters that make the writer quote a field, and a field with its quote
  characters doubled.\<close>

definition special :: "char \<Rightarrow> bool" where
  "special c = (c = delimiter \<or> c = quotechar \<or> c = CR \<or> c = LF)"

definition doubled :: "string \<Rightarrow> string" where
  "doubled s = concat (map (\<lambda>c. if c = quotechar then [c, c] else [c]) s)"

text \<open>The states in which the reader can be when a field has been read and the
  delimiter or the line break after it has not.\<close>

definition after_field :: "parser_state set" where
  "after_field = {START_FIELD, IN_FIELD, QUOTE_IN_QUOTED_FIELD}"

text \<open>A row that \<open>writerow\<close> and the reader take as it is: two fields or more, each
  without a carriage return and within the reader's limit.\<close>

definition row_ok :: "string list \<Rightarrow> bool" where
  "row_ok row =
     (length row \<ge> 2 \<and> list_all (\<lambda>s. CR \<notin> set s \<and> length s \<le> field_limit) row)"

text \<open>The fields \<open>save_csv\<close> writes for a transaction, and a transaction that comes back
  from its row: a valid one whose category and rendered amount hold no carriage return
  and are within the limit, and whose rendered amount \<open>float\<close> reads back.\<close>

definition csv_row :: "(pyfloat \<Rightarrow> string) \<Rightarrow> transaction \<Rightarrow> string list" where
  "csv_row py_str t = [transaction_type t, category t, py_str (amount t)]"

definition csv_safe :: "(pyfloat \<Rightarrow> string) \<Rightarrow> (string \<Rightarrow> pyfloat option) \<Rightarrow> transaction \<Rightarrow> bool" where
  "csv_safe py_str py_float t =
     (valid_transaction t
      \<and> CR \<notin> set (category t) \<and> length (category t) \<le> field_limit
      \<and> CR \<notin> set (py_str (amount t)) \<and> length (py_str (amount t)) \<le> field_limit
      \<and> py_float (py_str (amount t)) = Some (amount t))"

section \<open>Theorems\<close>

subsection \<open>Numerals and comparisons of amounts\<close>

lemma numeral_pyfloat: "(numeral n :: pyfloat) = Finite (numeral n)"
proof (induction n)
  case One
  show ?case by (simp add: one_pyfloat_def)
next
  case (Bit0 n)
  have "(numeral (num.Bit0 n) :: pyfloat) = numeral n + numeral n"
    by (rule numeral_Bit0)
  also have "\<dots> = Finite (numeral n + numeral n)"
    by (simp only: Bit0.IH plus_pyfloat.simps)
  finally show ?case by (simp only: numeral_Bit0)
next
  case (Bit1 n)
  have "(numeral (num.Bit1 n) :: pyfloat) = numeral n + numeral n + 1"
    by (rule numeral_Bit1)
  also have "\<dots> = Finite (numeral n + numeral n + 1)"
    by (simp only: Bit1.IH plus_pyfloat.simps one_pyfloat_def)
  finally show ?case by (simp only: numeral_Bit1)
qed

lemmas pyfloat_defs = numeral_pyfloat zero_pyfloat_def one_pyfloat_def minus_pyfloat_def

lemma pyfloat_less_not_le: "(0::pyfloat) < a \<Longrightarrow> \<not> a \<le> 0"
  by (cases a) (simp_all add: zero_pyfloat_def)

lemma pyfloat_not_le_less: "a \<noteq> NaN \<Longrightarrow> \<not> a \<le> (0::pyfloat) \<Longrightarrow> 0 < a"
  by (cases a) (simp_all add: zero_pyfloat_def)

lemma pyfloat_NaN: "\<not> NaN \<le> (0::pyfloat)" "\<not> (0::pyfloat) < NaN"
  by (simp_all add: zero_pyfloat_def)

subsection \<open>The digits of a number and the powers of 2\<close>

text \<open>\<open>bit_length\<close> and \<open>binade\<close> are what their names say, and the test for overflow in
  \<open>round_binary64\<close> is the comparison with \<open>2 ^ 1024\<close>.\<close>

lemma bit_length_nonneg: "0 \<le> bit_length n"
proof (induction n rule: bit_length.induct)
  case (1 n)
  show ?case
  proof (cases "n \<le> 0")
    case True
    then show ?thesis by (simp add: bit_length.simps [of n])
  next
    case False
    with 1 have "0 \<le> bit_length (n div 2)" by simp
    with False show ?thesis by (simp add: bit_length.simps [of n])
  qed
qed

lemma bit_length_pos: "0 < n \<Longrightarrow> 1 \<le> bit_length n"
  using bit_length_nonneg [of "n div 2"] by (simp add: bit_length.simps [of n])

lemma bit_length_bounds:
  "0 < n \<Longrightarrow> 2 ^ nat (bit_length n - 1) \<le> n \<and> n < 2 ^ nat (bit_length n)"
proof (induction n rule: bit_length.induct)
  case (1 n)
  show ?case
  proof (cases "n = 1")
    case True
    have "bit_length 1 = 1" by (simp add: bit_length.simps [of 1] bit_length.simps [of 0])
    with True show ?thesis by simp
  next
    case False
    with 1 have m: "0 < n div 2" by simp
    define A :: int where "A = 2 ^ nat (bit_length (n div 2) - 1)"
    define B :: int where "B = 2 ^ nat (bit_length (n div 2))"
    from 1 m have IH: "A \<le> n div 2" "n div 2 < B" by (simp_all add: A_def B_def)
    from bit_length_pos [OF m] have k: "1 \<le> bit_length (n div 2)" .
    from 1(2) have bl: "bit_length n = 1 + bit_length (n div 2)"
      by (simp add: bit_length.simps [of n])
    from k have e1: "nat (bit_length n - 1) = Suc (nat (bit_length (n div 2) - 1))"
      and e2: "nat (bit_length n) = Suc (nat (bit_length (n div 2)))"
      unfolding bl by simp_all
    from IH have "2 * A \<le> n \<and> n < 2 * B" by presburger
    then show ?thesis unfolding e1 e2 by (simp add: A_def B_def)
  qed
qed

lemma pow2_pos: "0 < pow2 e"
  by (simp add: pow2_def)

lemma pow2_power_int: "pow2 e = 2 powi e"
  by (simp add: pow2_def power_int_def field_simps)

lemma pow2_add: "pow2 (a + b) = pow2 a * pow2 b"
  by (simp add: pow2_power_int power_int_add)

lemma pow2_mono: "a \<le> b \<Longrightarrow> pow2 a \<le> pow2 b"
  by (simp add: pow2_power_int power_int_increasing)

lemma pow2_nat: "0 \<le> e \<Longrightarrow> pow2 e = of_int (2 ^ nat e)"
  by (simp add: pow2_def)

lemma bit_length_rat:
  assumes "0 < n"
  shows "pow2 (bit_length n - 1) \<le> of_int n" and "of_int n < pow2 (bit_length n)"
proof -
  from bit_length_pos [OF assms] have k: "1 \<le> bit_length n" .
  from bit_length_bounds [OF assms]
  have a: "2 ^ nat (bit_length n - 1) \<le> n" and b: "n < 2 ^ nat (bit_length n)" by simp_all
  from k have "pow2 (bit_length n - 1) = of_int (2 ^ nat (bit_length n - 1))"
    by (intro pow2_nat) simp
  also from a have "\<dots> \<le> of_int n" by (simp only: of_int_le_iff)
  finally show "pow2 (bit_length n - 1) \<le> of_int n" .
  from b have "(of_int n :: rat) < of_int (2 ^ nat (bit_length n))" by (simp only: of_int_less_iff)
  also from k have "\<dots> = pow2 (bit_length n)" by (intro pow2_nat [symmetric]) simp
  finally show "of_int n < pow2 (bit_length n)" .
qed

lemma pow2_neg: "pow2 (- e) = 1 / pow2 e"
  by (simp add: pow2_power_int power_int_minus field_simps)

lemma binade_bounds:
  assumes "0 < r"
  shows "pow2 (binade r) \<le> r \<and> r < pow2 (binade r + 1)"
proof (cases "1 \<le> r")
  case True
  then have n: "0 < \<lfloor>r\<rfloor>" by simp
  have b: "binade r = bit_length \<lfloor>r\<rfloor> - 1" using True by (simp add: binade_def)
  have "pow2 (bit_length \<lfloor>r\<rfloor> - 1) \<le> of_int \<lfloor>r\<rfloor>" by (rule bit_length_rat(1) [OF n])
  also have "\<dots> \<le> r" by simp
  finally have lo: "pow2 (binade r) \<le> r" unfolding b .
  from bit_length_bounds [OF n] have "\<lfloor>r\<rfloor> + 1 \<le> 2 ^ nat (bit_length \<lfloor>r\<rfloor>)" by simp
  then have "(of_int (\<lfloor>r\<rfloor> + 1) :: rat) \<le> of_int (2 ^ nat (bit_length \<lfloor>r\<rfloor>))"
    by (simp only: of_int_le_iff)
  also have "\<dots> = pow2 (bit_length \<lfloor>r\<rfloor>)"
    using bit_length_nonneg [of "\<lfloor>r\<rfloor>"] by (intro pow2_nat [symmetric])
  finally have "of_int (\<lfloor>r\<rfloor> + 1) \<le> pow2 (bit_length \<lfloor>r\<rfloor>)" .
  moreover have "r < of_int (\<lfloor>r\<rfloor> + 1)" by linarith
  ultimately have "r < pow2 (binade r + 1)" unfolding b by simp
  with lo show ?thesis ..
next
  case False
  define x where "x = 1 / r"
  define m where "m = \<lceil>x\<rceil> - 1"
  from False assms have x1: "1 < x" by (simp add: x_def)
  then have m: "0 < m" unfolding m_def by linarith
  have mx: "of_int m < x" "x \<le> of_int m + 1" unfolding m_def by linarith+
  have b: "binade r = - bit_length m" using False by (simp add: binade_def m_def x_def)
  from bit_length_rat [OF m] have lo: "pow2 (bit_length m - 1) \<le> of_int m"
    and hi: "of_int m < pow2 (bit_length m)" .
  from bit_length_bounds [OF m] have "m + 1 \<le> 2 ^ nat (bit_length m)" by simp
  then have "(of_int (m + 1) :: rat) \<le> of_int (2 ^ nat (bit_length m))"
    by (simp only: of_int_le_iff)
  also have "\<dots> = pow2 (bit_length m)"
    using bit_length_nonneg [of m] by (intro pow2_nat [symmetric])
  finally have "x \<le> pow2 (bit_length m)" using mx by simp
  then have "1 / pow2 (bit_length m) \<le> 1 / x"
    using x1 by (intro divide_left_mono) (simp_all add: pow2_pos)
  then have one: "pow2 (binade r) \<le> r"
    unfolding b pow2_neg using assms by (simp add: x_def)
  from lo mx have "pow2 (bit_length m - 1) < x" by simp
  then have "1 / x < 1 / pow2 (bit_length m - 1)"
    using x1 pow2_pos [of "bit_length m - 1"] by (intro divide_strict_left_mono) simp_all
  moreover have "pow2 (binade r + 1) = 1 / pow2 (bit_length m - 1)"
    unfolding b using pow2_neg [of "bit_length m - 1"] by simp
  ultimately have "r < pow2 (binade r + 1)" using assms by (simp add: x_def)
  with one show ?thesis ..
qed

lemma overflow_test:
  assumes "0 < m"
  shows "1024 < e + bit_length m \<longleftrightarrow> pow2 1024 \<le> of_int m * pow2 e"
proof
  assume "1024 < e + bit_length m"
  then have "pow2 1024 \<le> pow2 ((bit_length m - 1) + e)" by (intro pow2_mono) simp
  also have "\<dots> = pow2 (bit_length m - 1) * pow2 e" by (rule pow2_add)
  also have "\<dots> \<le> of_int m * pow2 e"
    using bit_length_rat(1) [OF assms] pow2_pos [of e] by (intro mult_right_mono) simp_all
  finally show "pow2 1024 \<le> of_int m * pow2 e" .
next
  assume a: "pow2 1024 \<le> of_int m * pow2 e"
  show "1024 < e + bit_length m"
  proof (rule ccontr)
    assume "\<not> 1024 < e + bit_length m"
    then have le: "bit_length m + e \<le> 1024" by simp
    have "of_int m * pow2 e < pow2 (bit_length m) * pow2 e"
      using bit_length_rat(2) [OF assms] pow2_pos [of e] by (intro mult_strict_right_mono)
    also have "\<dots> = pow2 (bit_length m + e)" by (rule pow2_add [symmetric])
    also from le have "\<dots> \<le> pow2 1024" by (rule pow2_mono)
    finally show False using a by simp
  qed
qed

text \<open>\<open>round_even\<close> gives an integer nearest to its argument, the even one at a tie.\<close>

lemma round_even_cases:
  obtains "x - of_int \<lfloor>x\<rfloor> < 1 / 2" "round_even x = \<lfloor>x\<rfloor>"
  | "1 / 2 < x - of_int \<lfloor>x\<rfloor>" "round_even x = \<lfloor>x\<rfloor> + 1"
  | "x - of_int \<lfloor>x\<rfloor> = 1 / 2" "even \<lfloor>x\<rfloor>" "round_even x = \<lfloor>x\<rfloor>"
  | "x - of_int \<lfloor>x\<rfloor> = 1 / 2" "odd \<lfloor>x\<rfloor>" "round_even x = \<lfloor>x\<rfloor> + 1"
  unfolding round_even_def Let_def by (cases "x - of_int \<lfloor>x\<rfloor>" "1 / 2 :: rat" rule: linorder_cases) auto

lemma round_even_near: "\<bar>of_int (round_even x) - x\<bar> \<le> 1 / 2"
proof -
  have fl: "0 \<le> x - of_int \<lfloor>x\<rfloor>" "x - of_int \<lfloor>x\<rfloor> < 1" by linarith+
  have down: "\<bar>of_int \<lfloor>x\<rfloor> - x\<bar> = x - of_int \<lfloor>x\<rfloor>" using fl by linarith
  have up: "\<bar>of_int (\<lfloor>x\<rfloor> + 1) - x\<bar> = 1 - (x - of_int \<lfloor>x\<rfloor>)" using fl by simp
  show ?thesis
  proof (cases x rule: round_even_cases)
    case 1
    with down show ?thesis by simp
  next
    case 2
    with up show ?thesis by simp
  next
    case 3
    with down show ?thesis by simp
  next
    case 4
    with up show ?thesis by simp
  qed
qed

lemma round_even_tie:
  assumes "\<bar>of_int (round_even x) - x\<bar> = 1 / 2"
  shows "even (round_even x)"
proof -
  have fl: "0 \<le> x - of_int \<lfloor>x\<rfloor>" "x - of_int \<lfloor>x\<rfloor> < 1" by linarith+
  show ?thesis
  proof (cases x rule: round_even_cases)
    case 1
    have "\<bar>of_int \<lfloor>x\<rfloor> - x\<bar> = x - of_int \<lfloor>x\<rfloor>" using fl by linarith
    with assms 1 show ?thesis by simp
  next
    case 2
    have "\<bar>of_int (\<lfloor>x\<rfloor> + 1) - x\<bar> = 1 - (x - of_int \<lfloor>x\<rfloor>)" using fl by simp
    with assms 2 show ?thesis by simp
  next
    case 3
    then show ?thesis by simp
  next
    case 4
    then show ?thesis by simp
  qed
qed

lemma round_even_of_int: "round_even (of_int n) = n"
  by (simp add: round_even_def)

subsection \<open>Sums, comprehensions and the summary loop\<close>

lemma py_sum_sum_list: "py_sum xs = sum_list xs"
proof -
  have "foldl (+) a xs = a + sum_list xs" for a :: pyfloat
    by (induction xs arbitrary: a) (simp_all add: add.assoc)
  from this [of 0] show ?thesis by (simp add: py_sum_def)
qed

lemma generator_filter: "[f t. t \<leftarrow> ts, P t] = map f (filter P ts)"
  by (induction ts) simp_all

lemma balance_sum_list:
  "calculate_balance self =
     sum_list (map amount (filter (\<lambda>t. transaction_type t = ''income'') (transactions self))) -
     sum_list (map amount (filter (\<lambda>t. transaction_type t = ''expense'') (transactions self)))"
  by (simp add: calculate_balance_def py_sum_sum_list generator_filter Let_def)

lemma sum_list_filter_mset:
  "sum_list (map f (filter P xs)) = sum_mset (image_mset f (filter_mset P (mset xs)))"
  by (induction xs) simp_all

lemma dict_get_Nil: "dict_get [] k d = d"
  by (simp add: dict_get_def)

lemma map_of_dict_get:
  "map_of d c = (if c \<in> fst ` set d then Some (dict_get d c 0) else None)"
  by (cases "map_of d c")
     (auto simp: dict_get_def map_of_eq_None_iff dest: map_of_SomeD intro: rev_image_eqI)



lemma summary_loop_keys:
  "fst ` set (summary_loop ts acc) =
     fst ` set acc \<union> category ` {t \<in> set ts. transaction_type t = ''expense''}"
  by (induction ts arbitrary: acc) (auto simp: dom_update)

lemma summary_loop_distinct:
  "distinct (map fst acc) \<Longrightarrow> distinct (map fst (summary_loop ts acc))"
  by (induction ts arbitrary: acc) (simp_all add: distinct_update)

lemma summary_loop_lookup:
  "dict_get (summary_loop ts acc) c 0 =
     dict_get acc c 0 +
     sum_list (map amount
       (filter (\<lambda>t. transaction_type t = ''expense'' \<and> category t = c) ts))"
  by (induction ts arbitrary: acc) (auto simp: dict_get_def update_conv' add.assoc)

lemma comprehension_all:
  "comprehension f xs = Inr ys \<Longrightarrow> (\<And>x y. f x = Inr y \<Longrightarrow> P y) \<Longrightarrow> list_all P ys"
  by (induction xs arbitrary: ys) (auto split: sum.splits)

lemma comprehension_Inl:
  "comprehension f xs = Inl e \<Longrightarrow> \<exists>x \<in> set xs. f x = Inl e"
  by (induction xs) (auto split: sum.splits)



subsection \<open>What the constructor lets through, and which exceptions can arise\<close>

lemma Transaction_init_accepted:
  "Transaction_init k c a = Inr t \<Longrightarrow> accepted_transaction t"
  by (auto simp: Transaction_init_def accepted_transaction_def split: if_splits)

lemma Transaction_call_accepted: "Transaction_call a b c = Inr t \<Longrightarrow> accepted_transaction t"
  by (auto simp: Transaction_call_def split: option.splits if_splits sum.splits
      dest: Transaction_init_accepted)

lemma Transaction_kwargs_accepted:
  "Transaction_kwargs item = Inr t \<Longrightarrow> accepted_transaction t"
  by (auto simp: Transaction_kwargs_def split: json.splits option.splits
      dest: Transaction_call_accepted)

lemma load_csv_row_accepted: "load_csv_row py_float row = Inr t \<Longrightarrow> accepted_transaction t"
  by (auto simp: load_csv_row_def split: option.splits sum.splits
      dest: Transaction_init_accepted)

lemma load_json_body_accepted:
  "load_json_body loads filename w = Inr ts \<Longrightarrow> list_all accepted_transaction ts"
  by (auto simp: load_json_body_def split: sum.splits option.splits
      intro: comprehension_all [where f = Transaction_kwargs] Transaction_kwargs_accepted)

lemma load_csv_body_accepted:
  "load_csv_body py_float filename w = Inr ts \<Longrightarrow> list_all accepted_transaction ts"
  by (auto simp: load_csv_body_def split: sum.splits option.splits prod.splits
      intro: comprehension_all [where f = "load_csv_row py_float"] load_csv_row_accepted)

lemma load_json_accepted:
  "ledger_accepted self \<Longrightarrow> ledger_accepted (fst (snd (load_json loads self filename w)))"
  by (auto simp: load_json_def ledger_accepted_def split: sum.splits
      dest: load_json_body_accepted)

lemma load_csv_accepted:
  "ledger_accepted self \<Longrightarrow>
     ledger_accepted (fst (snd (load_csv py_float self filename w)))"
  by (auto simp: load_csv_def ledger_accepted_def split: sum.splits
      dest: load_csv_body_accepted)

lemma add_transaction_accepted:
  "ledger_accepted self \<Longrightarrow> ledger_accepted (snd (add_transaction self k c a))"
  by (auto simp: add_transaction_def ledger_accepted_def split: sum.splits
      dest: Transaction_init_accepted)

lemma accepted_valid:
  "valid_transaction t \<longleftrightarrow> accepted_transaction t \<and> amount t \<noteq> NaN"
  by (cases "amount t")
     (auto simp: valid_transaction_def accepted_transaction_def zero_pyfloat_def)

lemma Transaction_init_found: "Transaction_init k c a \<noteq> Inl FileNotFoundError"
  by (simp add: Transaction_init_def)

lemma Transaction_call_found: "Transaction_call a b c \<noteq> Inl FileNotFoundError"
  by (auto simp: Transaction_call_def Transaction_init_found split: option.splits sum.splits)

lemma Transaction_kwargs_found: "Transaction_kwargs item \<noteq> Inl FileNotFoundError"
  by (simp add: Transaction_kwargs_def Transaction_call_found split: json.splits option.splits)

lemma py_iter_found: "py_iter d \<noteq> Inl FileNotFoundError"
  by (cases d) simp_all

lemma load_csv_row_found: "load_csv_row py_float row \<noteq> Inl FileNotFoundError"
  by (auto simp: load_csv_row_def Transaction_init_found split: option.splits sum.splits)

lemma parse_add_char_error: "parse_add_char r c = Inl e \<Longrightarrow> \<exists>m. e = csv_Error m"
  by (auto simp: parse_add_char_def split: if_splits)

lemma start_field_error: "start_field r c = Inl e \<Longrightarrow> \<exists>m. e = csv_Error m"
  by (auto simp: start_field_def split: option.splits if_splits sum.splits
      dest: parse_add_char_error)

lemma parse_process_char_error: "parse_process_char r c = Inl e \<Longrightarrow> \<exists>m. e = csv_Error m"
  by (auto simp: parse_process_char_def
      split: parser_state.splits option.splits if_splits sum.splits
      dest: parse_add_char_error start_field_error)

lemma parse_line_error: "parse_line r l = Inl e \<Longrightarrow> \<exists>m. e = csv_Error m"
  by (induction l arbitrary: r) (auto split: sum.splits dest: parse_process_char_error)

lemma reader_rows_error: "reader_rows r ls = (rows, Some e) \<Longrightarrow> \<exists>m. e = csv_Error m"
  by (induction r ls arbitrary: rows rule: reader_rows.induct)
     (auto split: sum.splits if_splits prod.splits dest: parse_line_error)

lemma DictReader_error: "DictReader ls = (rows, Some e) \<Longrightarrow> \<exists>m. e = csv_Error m"
  by (auto simp: DictReader_def split: prod.splits list.splits dest: reader_rows_error)

lemma load_json_body_found:
  "load_json_body loads filename w = Inl FileNotFoundError \<longleftrightarrow> files w filename = Absent"
  by (auto simp: load_json_body_def open_read_def py_iter_found Transaction_kwargs_found
      split: node.splits option.splits sum.splits dest!: comprehension_Inl)

lemma load_csv_body_found:
  "load_csv_body py_float filename w = Inl FileNotFoundError \<longleftrightarrow> files w filename = Absent"
  by (auto simp: load_csv_body_def open_read_def load_csv_row_found
      split: node.splits option.splits sum.splits prod.splits
      dest!: comprehension_Inl DictReader_error)

lemma load_json_body_Inl:
  "load_json_body loads filename w = Inl e \<Longrightarrow> files w filename \<noteq> Absent \<Longrightarrow>
     load_json loads self filename w = (Some e, self, w)"
  using load_json_body_found [of loads filename w] by (auto simp: load_json_def)

lemma load_csv_body_Inl:
  "load_csv_body py_float filename w = Inl e \<Longrightarrow> files w filename \<noteq> Absent \<Longrightarrow>
     load_csv py_float self filename w = (Some e, self, w)"
  using load_csv_body_found [of py_float filename w] by (auto simp: load_csv_def)

lemma load_json_absent:
  "files w filename = Absent \<Longrightarrow>
     load_json loads self filename w =
       (None, self\<lparr>transactions := []\<rparr>,
        w\<lparr>stdout := stdout w @ [''JSON file not found. Starting with empty list.'']\<rparr>)"
  using load_json_body_found [of loads filename w]
  by (simp add: load_json_def)

lemma load_csv_absent:
  "files w filename = Absent \<Longrightarrow>
     load_csv py_float self filename w =
       (None, self\<lparr>transactions := []\<rparr>,
        w\<lparr>stdout := stdout w @ [''CSV file not found. Starting with empty list.'']\<rparr>)"
  using load_csv_body_found [of py_float filename w]
  by (simp add: load_csv_def)

lemma load_json_present:
  "files w filename \<noteq> Absent \<Longrightarrow>
     (\<exists>e. e \<noteq> FileNotFoundError \<and> load_json loads self filename w = (Some e, self, w))
     \<or> (\<exists>ts. load_json loads self filename w =
           (None, self\<lparr>transactions := ts\<rparr>,
            w\<lparr>stdout := stdout w @ [''Data loaded from '' @ filename]\<rparr>))"
  using load_json_body_found [of loads filename w]
  by (cases "load_json_body loads filename w") (auto simp: load_json_def)

lemma load_csv_present:
  "files w filename \<noteq> Absent \<Longrightarrow>
     (\<exists>e. e \<noteq> FileNotFoundError \<and> load_csv py_float self filename w = (Some e, self, w))
     \<or> (\<exists>ts. load_csv py_float self filename w =
           (None, self\<lparr>transactions := ts\<rparr>,
            w\<lparr>stdout := stdout w @ [''Data loaded from '' @ filename]\<rparr>))"
  using load_csv_body_found [of py_float filename w]
  by (cases "load_csv_body py_float filename w") (auto simp: load_csv_def)

lemma load_denied:
  "files w filename = Denied \<Longrightarrow>
     load_json loads self filename w = (Some PermissionError, self, w)
     \<and> load_csv py_float self filename w = (Some PermissionError, self, w)"
  by (simp add: load_json_def load_json_body_def load_csv_def load_csv_body_def open_read_def)

lemma load_json_decode_error:
  "files w filename = File text \<Longrightarrow> loads (universal_newlines text) = None \<Longrightarrow>
     load_json loads self filename w = (Some JSONDecodeError, self, w)"
  by (simp add: load_json_def load_json_body_def open_read_def)

lemma load_csv_body_rows:
  "files w filename = File text \<Longrightarrow>
   DictReader (file_lines (universal_newlines text)) = (rows, err) \<Longrightarrow>
     load_csv_body py_float filename w =
       (case comprehension (load_csv_row py_float) rows of
          Inl e \<Rightarrow> Inl e
        | Inr ts \<Rightarrow> (case err of Some e \<Rightarrow> Inl e | None \<Rightarrow> Inr ts))"
  by (simp add: load_csv_body_def open_read_def)


lemma to_dict_kwargs:
  "Transaction_kwargs (JObj (to_dict t)) =
     Inl (TypeError (''__init__() got an unexpected keyword argument '' @ quoted ''type''))"
  by (simp add: Transaction_kwargs_def to_dict_def init_params_def)

lemmas reader_defs = parse_reset_def parse_process_char_def start_field_def parse_add_char_def
  parse_save_field_def end_of_line_def is_newline_def field_limit_def

lemmas writer_defs = writerow_def fieldnames_def DictWriter_writerow_def to_dict_def
  join_append_data_def

lemmas load_row_defs = DictReader_def DictReader_row_def load_csv_row_def Transaction_init_def

lemma str_int_5: "str_int 5 = ''5''"
  by (simp add: numeral_pyfloat digit_chars_def)

lemma float_digits_5: "float_digits ''5'' = Some 5"
  by (simp add: float_digits_def digit_chars_def numeral_pyfloat)

lemma float_digits_1: "float_digits ''1'' = Some 1"
  by (simp add: float_digits_def digit_chars_def one_pyfloat_def)

lemma float_digits_2500: "float_digits ''2500'' = Some 2500"
  by (simp add: float_digits_def digit_chars_def numeral_pyfloat)


lemma float_digits_nan: "float_digits ''nan'' = Some NaN"
  by (simp add: float_digits_def)

subsection \<open>The reader on what the writer wrote\<close>

lemma file_lines_nonempty: "cs \<noteq> [] \<Longrightarrow> file_lines cs \<noteq> []"
  by (cases cs) (auto split: list.splits)

lemma reader_rows_char:
  assumes "c \<noteq> LF" and "cs \<noteq> []"
  shows "reader_rows r (file_lines (c # cs)) =
     (case parse_process_char r (Some c) of
        Inl e \<Rightarrow> ([], Some e)
      | Inr r' \<Rightarrow> reader_rows r' (file_lines cs))"
proof -
  from file_lines_nonempty [OF assms(2)] obtain l ls where l: "file_lines cs = l # ls"
    by (cases "file_lines cs") auto
  show ?thesis
    using assms(1) by (simp add: l split: sum.splits)
qed

lemma reader_rows_quoted_LF:
  assumes "state r = IN_QUOTED_FIELD" and "length (field r) < field_limit"
  shows "reader_rows r (file_lines (LF # cs)) =
     reader_rows (r\<lparr>field := field r @ [LF]\<rparr>) (file_lines cs)"
  using assms by (simp add: parse_process_char_def parse_add_char_def)

lemma reader_rows_end_of_record:
  assumes "state r \<in> {START_FIELD, IN_FIELD, QUOTE_IN_QUOTED_FIELD}"
  shows "reader_rows r (file_lines (LF # cs)) =
     (case reader_rows parse_reset (file_lines cs) of
        (rows, e) \<Rightarrow> ((row_fields r @ [field r]) # rows, e))"
  using assms
  by (auto simp: parse_process_char_def start_field_def end_of_line_def is_newline_def
      parse_save_field_def)

lemma join_append_data_alt:
  "join_append_data s =
     (if list_ex special s then [quotechar] @ doubled s @ [quotechar] else s)"
  by (simp add: join_append_data_def doubled_def special_def list_ex_iff filter_empty_conv)

lemma in_field_chars:
  assumes "\<not> list_ex special s" and "length b + length s \<le> field_limit" and "rest \<noteq> []"
  shows "reader_rows \<lparr>state = IN_FIELD, row_fields = fs, field = b\<rparr> (file_lines (s @ rest)) =
     reader_rows \<lparr>state = IN_FIELD, row_fields = fs, field = b @ s\<rparr> (file_lines rest)"
  using assms
proof (induction s arbitrary: b)
  case Nil
  then show ?case by simp
next
  case (Cons c s)
  from Cons.prems have c: "c \<noteq> LF" "c \<noteq> CR" "c \<noteq> delimiter" and len: "length b < field_limit"
    by (auto simp: special_def)
  have "reader_rows \<lparr>state = IN_FIELD, row_fields = fs, field = b\<rparr>
          (file_lines (c # (s @ rest))) =
        reader_rows \<lparr>state = IN_FIELD, row_fields = fs, field = b @ [c]\<rparr>
          (file_lines (s @ rest))"
    using c len Cons.prems(3)
    by (simp add: reader_rows_char parse_process_char_def parse_add_char_def is_newline_def
        del: file_lines.simps)
  also have "\<dots> = reader_rows \<lparr>state = IN_FIELD, row_fields = fs, field = (b @ [c]) @ s\<rparr>
          (file_lines rest)"
    using Cons.prems by (intro Cons.IH) auto
  finally show ?case by simp
qed

lemma in_quoted_chars:
  assumes "length b + length s \<le> field_limit" and "rest \<noteq> []"
  shows "reader_rows \<lparr>state = IN_QUOTED_FIELD, row_fields = fs, field = b\<rparr>
           (file_lines (doubled s @ quotechar # rest)) =
     reader_rows \<lparr>state = QUOTE_IN_QUOTED_FIELD, row_fields = fs, field = b @ s\<rparr>
           (file_lines rest)"
  using assms
proof (induction s arbitrary: b)
  case Nil
  then show ?case
    by (simp add: doubled_def reader_rows_char parse_process_char_def del: file_lines.simps)
next
  case (Cons c s)
  from Cons.prems have len: "length b < field_limit" by simp
  have IH: "reader_rows \<lparr>state = IN_QUOTED_FIELD, row_fields = fs, field = b @ [c]\<rparr>
           (file_lines (doubled s @ quotechar # rest)) =
     reader_rows \<lparr>state = QUOTE_IN_QUOTED_FIELD, row_fields = fs, field = b @ c # s\<rparr>
           (file_lines rest)"
    using Cons.IH [of "b @ [c]"] Cons.prems by simp
  have ne: "doubled s @ quotechar # rest \<noteq> []" by simp
  consider "c = quotechar" | "c = LF" | "c \<noteq> quotechar" "c \<noteq> LF" by blast
  then have "reader_rows \<lparr>state = IN_QUOTED_FIELD, row_fields = fs, field = b\<rparr>
           (file_lines (doubled (c # s) @ quotechar # rest)) =
        reader_rows \<lparr>state = IN_QUOTED_FIELD, row_fields = fs, field = b @ [c]\<rparr>
           (file_lines (doubled s @ quotechar # rest))"
  proof cases
    case 1
    have d: "doubled (c # s) @ quotechar # rest = c # c # (doubled s @ quotechar # rest)"
      using 1 by (simp add: doubled_def)
    show ?thesis
      unfolding d using 1 len
      by (simp add: reader_rows_char parse_process_char_def parse_add_char_def
          del: file_lines.simps)
  next
    case 2
    have d: "doubled (c # s) @ quotechar # rest = LF # (doubled s @ quotechar # rest)"
      using 2 by (simp add: doubled_def)
    show ?thesis
      unfolding d using 2 len
      by (simp add: reader_rows_quoted_LF del: file_lines.simps)
  next
    case 3
    have d: "doubled (c # s) @ quotechar # rest = c # (doubled s @ quotechar # rest)"
      using 3 by (simp add: doubled_def)
    show ?thesis
      unfolding d using 3 len ne
      by (simp add: reader_rows_char parse_process_char_def parse_add_char_def
          del: file_lines.simps)
  qed
  with IH show ?case by simp
qed

lemma field_from_start:
  assumes "length s \<le> field_limit" and "rest \<noteq> []"
  shows "\<exists>st \<in> after_field.
     reader_rows \<lparr>state = START_FIELD, row_fields = fs, field = []\<rparr>
       (file_lines (join_append_data s @ rest)) =
     reader_rows \<lparr>state = st, row_fields = fs, field = s\<rparr> (file_lines rest)"
proof (cases "list_ex special s")
  case True
  have "reader_rows \<lparr>state = START_FIELD, row_fields = fs, field = []\<rparr>
       (file_lines (quotechar # (doubled s @ quotechar # rest))) =
     reader_rows \<lparr>state = IN_QUOTED_FIELD, row_fields = fs, field = []\<rparr>
       (file_lines (doubled s @ quotechar # rest))"
    by (simp add: reader_rows_char parse_process_char_def start_field_def is_newline_def
        del: file_lines.simps)
  also have "\<dots> = reader_rows \<lparr>state = QUOTE_IN_QUOTED_FIELD, row_fields = fs, field = [] @ s\<rparr>
       (file_lines rest)"
    using assms by (intro in_quoted_chars) auto
  finally show ?thesis
    using True by (auto simp: join_append_data_alt after_field_def)
next
  case False
  show ?thesis
  proof (cases s)
    case Nil
    then show ?thesis using False by (auto simp: join_append_data_alt after_field_def)
  next
    case (Cons c s')
    with False have c: "\<not> special c" and s': "\<not> list_ex special s'" by auto
    have ne: "s' @ rest \<noteq> []" using assms(2) by simp
    have "reader_rows \<lparr>state = START_FIELD, row_fields = fs, field = []\<rparr>
         (file_lines (c # (s' @ rest))) =
       reader_rows \<lparr>state = IN_FIELD, row_fields = fs, field = [c]\<rparr>
         (file_lines (s' @ rest))"
      using c ne
      by (simp add: reader_rows_char parse_process_char_def start_field_def is_newline_def
          parse_add_char_def special_def field_limit_def del: file_lines.simps)
    also have "\<dots> = reader_rows \<lparr>state = IN_FIELD, row_fields = fs, field = [c] @ s'\<rparr>
         (file_lines rest)"
      using assms s' Cons by (intro in_field_chars) auto
    finally show ?thesis
      using False Cons by (auto simp: join_append_data_alt after_field_def)
  qed
qed

lemma field_delimiter:
  assumes "st \<in> after_field" and "rest \<noteq> []"
  shows "reader_rows \<lparr>state = st, row_fields = fs, field = b\<rparr> (file_lines (delimiter # rest)) =
     reader_rows \<lparr>state = START_FIELD, row_fields = fs @ [b], field = []\<rparr> (file_lines rest)"
  using assms
  by (auto simp: after_field_def reader_rows_char parse_process_char_def start_field_def
      is_newline_def parse_save_field_def simp del: file_lines.simps)

lemma field_end_of_record:
  assumes "st \<in> after_field"
  shows "reader_rows \<lparr>state = st, row_fields = fs, field = b\<rparr> (file_lines (LF # rest)) =
     (case reader_rows parse_reset (file_lines rest) of
        (rows, e) \<Rightarrow> ((fs @ [b]) # rows, e))"
  using assms reader_rows_end_of_record [of "\<lparr>state = st, row_fields = fs, field = b\<rparr>" rest]
  by (simp add: after_field_def del: file_lines.simps)

lemma record_from_start_field:
  assumes "fl \<noteq> []" and "list_all (\<lambda>s. length s \<le> field_limit) fl"
  shows "reader_rows \<lparr>state = START_FIELD, row_fields = fs, field = []\<rparr>
       (file_lines (join_fields (map join_append_data fl) @ LF # rest)) =
     (case reader_rows parse_reset (file_lines rest) of
        (rows, e) \<Rightarrow> ((fs @ fl) # rows, e))"
  using assms
proof (induction fl arbitrary: fs)
  case Nil
  then show ?case by simp
next
  case (Cons f fl)
  from Cons.prems have len: "length f \<le> field_limit" by simp
  show ?case
  proof (cases fl)
    case Nil
    from field_from_start [OF len, of "LF # rest" fs]
    obtain st where st: "st \<in> after_field"
      and "reader_rows \<lparr>state = START_FIELD, row_fields = fs, field = []\<rparr>
             (file_lines (join_append_data f @ LF # rest)) =
           reader_rows \<lparr>state = st, row_fields = fs, field = f\<rparr> (file_lines (LF # rest))"
      by auto
    with Nil show ?thesis
      by (simp add: field_end_of_record del: file_lines.simps)
  next
    case (Cons g gl)
    let ?tail = "join_fields (map join_append_data fl) @ LF # rest"
    from field_from_start [OF len, of "delimiter # ?tail" fs]
    obtain st where st: "st \<in> after_field"
      and eq: "reader_rows \<lparr>state = START_FIELD, row_fields = fs, field = []\<rparr>
             (file_lines (join_append_data f @ delimiter # ?tail)) =
           reader_rows \<lparr>state = st, row_fields = fs, field = f\<rparr>
             (file_lines (delimiter # ?tail))"
      by auto
    have "reader_rows \<lparr>state = st, row_fields = fs, field = f\<rparr>
             (file_lines (delimiter # ?tail)) =
          reader_rows \<lparr>state = START_FIELD, row_fields = fs @ [f], field = []\<rparr>
             (file_lines ?tail)"
      using st by (intro field_delimiter) auto
    also have "\<dots> = (case reader_rows parse_reset (file_lines rest) of
        (rows, e) \<Rightarrow> (((fs @ [f]) @ fl) # rows, e))"
      using Cons.prems Cons by (intro Cons.IH) auto
    finally show ?thesis
      using eq Cons by simp
  qed
qed

lemma start_record_char:
  assumes "c \<noteq> LF" and "c \<noteq> CR" and "cs \<noteq> []"
  shows "reader_rows \<lparr>state = START_RECORD, row_fields = fs, field = b\<rparr> (file_lines (c # cs)) =
     reader_rows \<lparr>state = START_FIELD, row_fields = fs, field = b\<rparr> (file_lines (c # cs))"
  using assms
  by (simp add: reader_rows_char parse_process_char_def is_newline_def del: file_lines.simps)

lemma join_append_data_head:
  assumes "rest \<noteq> []"
  shows "\<exists>c cs. join_append_data s @ delimiter # rest = c # cs \<and> c \<noteq> LF \<and> c \<noteq> CR \<and> cs \<noteq> []"
proof (cases "list_ex special s")
  case True
  then show ?thesis by (simp add: join_append_data_alt)
next
  case False
  with assms show ?thesis
    by (cases s) (auto simp: join_append_data_alt special_def)
qed

lemma record_from_reset:
  assumes "list_all (\<lambda>s. length s \<le> field_limit) (f # g # fl)"
  shows "reader_rows parse_reset
       (file_lines (join_fields (map join_append_data (f # g # fl)) @ LF # rest)) =
     (case reader_rows parse_reset (file_lines rest) of
        (rows, e) \<Rightarrow> ((f # g # fl) # rows, e))"
proof -
  let ?text = "join_fields (map join_append_data (f # g # fl)) @ LF # rest"
  have "join_fields (map join_append_data (g # fl)) @ LF # rest \<noteq> []" by simp
  from join_append_data_head [OF this, of f]
  obtain c cs where t: "?text = c # cs" and c: "c \<noteq> LF" "c \<noteq> CR" "cs \<noteq> []"
    by auto
  have "reader_rows parse_reset (file_lines ?text) =
      reader_rows \<lparr>state = START_FIELD, row_fields = [], field = []\<rparr> (file_lines ?text)"
    unfolding t parse_reset_def using c by (rule start_record_char)
  also have "\<dots> = (case reader_rows parse_reset (file_lines rest) of
        (rows, e) \<Rightarrow> (([] @ f # g # fl) # rows, e))"
    using assms by (intro record_from_start_field) auto
  finally show ?thesis by simp
qed

lemma universal_newlines_Cons: "CR \<noteq> c \<Longrightarrow> universal_newlines (c # cs) = c # universal_newlines cs"
  by (cases cs) auto

lemma universal_newlines_line:
  "CR \<notin> set x \<Longrightarrow> universal_newlines (x @ CR # LF # rest) = x @ LF # universal_newlines rest"
  by (induction x) (simp_all add: universal_newlines_Cons)

lemma doubled_set: "set (doubled s) = set s"
  by (induction s) (auto simp: doubled_def)

lemma join_append_data_CR: "CR \<notin> set s \<Longrightarrow> CR \<notin> set (join_append_data s)"
  by (simp add: join_append_data_alt doubled_set)

lemma join_fields_CR:
  "list_all (\<lambda>s. CR \<notin> set s) fl \<Longrightarrow> CR \<notin> set (join_fields fl)"
  by (induction fl rule: join_fields.induct) auto

lemma writerow_ok:
  assumes "row_ok row"
  shows "writerow row = join_fields (map join_append_data row) @ [CR, LF]"
    and "CR \<notin> set (join_fields (map join_append_data row))"
proof -
  from assms have "row \<noteq> [[]]" by (auto simp: row_ok_def)
  then show "writerow row = join_fields (map join_append_data row) @ [CR, LF]"
    by (simp add: writerow_def)
  from assms have "list_all (\<lambda>s. CR \<notin> set s) (map join_append_data row)"
    by (auto simp: row_ok_def list_all_iff join_append_data_CR)
  then show "CR \<notin> set (join_fields (map join_append_data row))"
    by (rule join_fields_CR)
qed

lemma read_written_rows:
  assumes "list_all row_ok rows"
  shows "reader_rows parse_reset
       (file_lines (universal_newlines (concat (map writerow rows)))) = (rows, None)"
  using assms
proof (induction rows)
  case Nil
  then show ?case by (simp add: parse_reset_def)
next
  case (Cons row rows)
  from Cons.prems have ok: "row_ok row" by simp
  then obtain f g fl where row: "row = f # g # fl"
    by (cases row; cases "tl row") (auto simp: row_ok_def)
  let ?rest = "universal_newlines (concat (map writerow rows))"
  have "universal_newlines (concat (map writerow (row # rows))) =
      join_fields (map join_append_data row) @ LF # ?rest"
    using writerow_ok [OF ok] by (simp add: universal_newlines_line)
  moreover have "reader_rows parse_reset
       (file_lines (join_fields (map join_append_data row) @ LF # ?rest)) =
     (case reader_rows parse_reset (file_lines ?rest) of
        (rs, e) \<Rightarrow> (row # rs, e))"
    unfolding row using ok by (intro record_from_reset) (auto simp: row_ok_def row list_all_iff)
  ultimately show ?case
    using Cons by simp
qed

lemma DictWriter_writerow_row:
  "DictWriter_writerow py_str (to_dict t) = writerow (csv_row py_str t)"
  by (simp add: DictWriter_writerow_def to_dict_def fieldnames_def csv_row_def)

lemma row_ok_fieldnames: "row_ok fieldnames"
  by (simp add: row_ok_def fieldnames_def field_limit_def)

lemma row_ok_csv_row: "csv_safe py_str py_float t \<Longrightarrow> row_ok (csv_row py_str t)"
  by (auto simp: csv_safe_def row_ok_def csv_row_def valid_transaction_def field_limit_def)

lemma load_csv_row_csv_row:
  "csv_safe py_str py_float t \<Longrightarrow>
     load_csv_row py_float (DictReader_row fieldnames (csv_row py_str t)) = Inr t"
  by (auto simp: csv_safe_def load_csv_row_def DictReader_row_def fieldnames_def csv_row_def
      Transaction_init_def valid_transaction_def dest: pyfloat_less_not_le)

lemma comprehension_map_Inr:
  "list_all (\<lambda>x. f (g x) = Inr x) xs \<Longrightarrow> comprehension f (map g xs) = Inr xs"
  by (induction xs) simp_all

subsection \<open>A field beyond the limit of the reader\<close>

lemma universal_newlines_id: "CR \<notin> set s \<Longrightarrow> universal_newlines s = s"
  by (induction s) (simp_all add: universal_newlines_Cons)

lemma file_lines_single: "LF \<notin> set s \<Longrightarrow> s \<noteq> [] \<Longrightarrow> file_lines s = [s]"
proof (induction s)
  case Nil
  then show ?case by simp
next
  case (Cons c s)
  then show ?case by (cases "s = []") auto
qed

lemma parse_line_in_field:
  assumes "length b + k \<le> field_limit" and "c \<noteq> LF" and "c \<noteq> CR" and "c \<noteq> delimiter"
  shows "parse_line \<lparr>state = IN_FIELD, row_fields = fs, field = b\<rparr> (replicate k c @ rest) =
     parse_line \<lparr>state = IN_FIELD, row_fields = fs, field = b @ replicate k c\<rparr> rest"
  using assms(1)
proof (induction k arbitrary: b)
  case 0
  then show ?case by simp
next
  case (Suc k)
  from Suc.prems have len: "length b < field_limit" by simp
  have "parse_line \<lparr>state = IN_FIELD, row_fields = fs, field = b\<rparr>
          (replicate (Suc k) c @ rest) =
        parse_line \<lparr>state = IN_FIELD, row_fields = fs, field = b @ [c]\<rparr> (replicate k c @ rest)"
    using assms(2-4) len
    by (simp add: parse_process_char_def parse_add_char_def is_newline_def)
  also have "\<dots> = parse_line \<lparr>state = IN_FIELD, row_fields = fs, field = (b @ [c]) @ replicate k c\<rparr>
          rest"
    using Suc.prems by (intro Suc.IH) simp
  finally show ?case by (simp add: replicate_app_Cons_same)
qed

lemma parse_line_long_field:
  "parse_line parse_reset (replicate (Suc field_limit) (CHR ''a'')) =
     Inl (csv_Error ''field larger than field limit (131072)'')"
proof -
  let ?a = "CHR ''a''"
  obtain n where n: "field_limit = Suc n"
    by (cases field_limit) (simp_all add: field_limit_def)
  have split: "replicate (Suc field_limit) ?a = ?a # (replicate n ?a @ [?a])"
    unfolding n by (simp add: replicate_append_same)
  have "parse_line parse_reset (?a # (replicate n ?a @ [?a])) =
      parse_line \<lparr>state = IN_FIELD, row_fields = [], field = [?a]\<rparr> (replicate n ?a @ [?a])"
    by (simp add: parse_reset_def parse_process_char_def start_field_def is_newline_def
        parse_add_char_def n)
  also have "\<dots> = parse_line \<lparr>state = IN_FIELD, row_fields = [], field = [?a] @ replicate n ?a\<rparr>
      [?a]"
    by (intro parse_line_in_field) (simp_all add: n)
  also have "\<dots> = Inl (csv_Error ''field larger than field limit (131072)'')"
    by (simp add: parse_process_char_def is_newline_def parse_add_char_def n)
  finally show ?thesis unfolding split .
qed

lemma DictReader_long_field:
  "DictReader (file_lines (universal_newlines long_field_rows)) =
     ([], Some (csv_Error ''field larger than field limit (131072)''))"
proof -
  let ?long = "replicate (Suc field_limit) (CHR ''a'')"
  have shape: "long_field_rows = join_fields (map join_append_data fieldnames) @ LF # ?long"
    by (simp add: long_field_rows_def fieldnames_def join_append_data_def)
  have "CR \<notin> set long_field_rows"
    by (simp add: long_field_rows_def)
  then have nl: "universal_newlines long_field_rows = long_field_rows"
    by (rule universal_newlines_id)
  have one: "file_lines ?long = [?long]"
    by (intro file_lines_single) simp_all
  have "reader_rows parse_reset (file_lines long_field_rows) =
      (case reader_rows parse_reset (file_lines ?long) of
         (rows, e) \<Rightarrow> (fieldnames # rows, e))"
    unfolding shape fieldnames_def
    by (intro record_from_reset) (simp add: field_limit_def)
  also have "\<dots> = ([fieldnames], Some (csv_Error ''field larger than field limit (131072)''))"
    unfolding one by (simp add: parse_line_long_field del: replicate.simps)
  finally show ?thesis
    unfolding nl by (simp add: DictReader_def)
qed

subsection \<open>The rounded sums of three expenses\<close>

text \<open>With \<open>+\<close> for the addition, the loops of subsection \<open>Rounded sums\<close> are the functions
  of the model.\<close>

lemma sum_with_plus: "sum_with (+) = py_sum"
  by (simp add: fun_eq_iff sum_with_def py_sum_def)

lemma summary_loop_with_plus: "summary_loop_with (+) ts acc = summary_loop ts acc"
  by (induction ts arbitrary: acc) simp_all

lemma summary_by_category_with_plus: "summary_by_category_with (+) = summary_by_category"
  by (simp add: fun_eq_iff summary_by_category_with_def summary_by_category_def
      summary_loop_with_plus)

lemma calculate_balance_with_minus: "calculate_balance_with py_sum (-) = calculate_balance"
  by (simp add: fun_eq_iff calculate_balance_with_def calculate_balance_def total_income_def
      total_expenses_def)

text \<open>The amounts of the ledger of three expenses are the \<open>float\<close>s of their literals, and
  its sums, addition by addition.\<close>

lemma fadd_zero: "fadd 0 (Finite a) = round_binary64 a" "fadd (Finite a) 0 = round_binary64 a"
  by (simp_all add: zero_pyfloat_def)







section \<open>The claims\<close>

subsection \<open>C1\<close>

text \<open>
  Claim C1: for every sequence of valid transactions, \<open>save_json\<close> followed by
  \<open>load_json\<close> on the same file should reproduce the sequence. It does not: \<open>save_json\<close>
  writes each transaction under the keys \<open>type\<close>, \<open>category\<close>, \<open>amount\<close> of \<open>to_dict\<close>, and
  \<open>load_json\<close> passes each object as keyword arguments to \<open>Transaction.__init__\<close>, whose
  first parameter is \<open>transaction_type\<close>. For every ledger that is not empty, whatever
  file was there before, and every \<open>json.dump\<close> and \<open>json.load\<close> that give the saved
  document back, loading what was saved raises \<open>TypeError\<close> on the key \<open>type\<close> and leaves
  the loading tracker as it was.
\<close>

theorem save_json_load_json_raises:
  assumes "transactions self \<noteq> []"
    and "files w filename \<noteq> Denied"
    and "loads (universal_newlines
                 (dumps (JArr (map (\<lambda>t. JObj (to_dict t)) (transactions self)))))
           = Some (JArr (map (\<lambda>t. JObj (to_dict t)) (transactions self)))"
  shows "load_json loads other filename (snd (save_json dumps self filename w)) =
     (Some (TypeError (''__init__() got an unexpected keyword argument '' @ quoted ''type'')),
      other, snd (save_json dumps self filename w))"
proof -
  from assms(1) obtain t ts where ts: "transactions self = t # ts"
    by (cases "transactions self") auto
  have w: "open_write w filename = None"
    using assms(2) by (simp add: open_write_def split: node.splits)
  show ?thesis
    using assms(3) unfolding ts
    by (simp add: save_json_def w load_json_def load_json_body_def open_read_def ts
        to_dict_kwargs)
qed

text \<open>The ledger of one income, saved and loaded.\<close>

theorem save_json_load_json_raises_witness:
  "transactions salary_tracker \<noteq> []
   \<and> load_json salary_loads ExpenseTracker_init ''transactions.json''
       (snd (save_json salary_dumps salary_tracker ''transactions.json'' empty_world)) =
     (Some (TypeError (''__init__() got an unexpected keyword argument '' @ quoted ''type'')),
      ExpenseTracker_init,
      \<lparr>files = (\<lambda>_. Absent)(''transactions.json'' := File salary_text),
        stdout = [''Data saved to transactions.json'']\<rparr>)"
proof -
  have a: "transactions salary_tracker \<noteq> []"
    by (simp add: salary_tracker_def)
  have b: "files empty_world ''transactions.json'' \<noteq> Denied"
    by (simp add: empty_world_def)
  have doc: "JArr (map (\<lambda>t. JObj (to_dict t)) (transactions salary_tracker)) = salary_doc"
    by (simp add: salary_tracker_def salary_doc_def to_dict_def)
  have nl: "universal_newlines salary_text = salary_text"
    by (simp add: salary_text_def)
  have c: "salary_loads (universal_newlines
             (salary_dumps (JArr (map (\<lambda>t. JObj (to_dict t)) (transactions salary_tracker)))))
           = Some (JArr (map (\<lambda>t. JObj (to_dict t)) (transactions salary_tracker)))"
    unfolding doc by (simp add: salary_dumps_def salary_loads_def nl)
  have saved: "snd (save_json salary_dumps salary_tracker ''transactions.json'' empty_world) =
      \<lparr>files = (\<lambda>_. Absent)(''transactions.json'' := File salary_text),
        stdout = [''Data saved to transactions.json'']\<rparr>"
    unfolding save_json_def doc
    by (simp add: open_write_def empty_world_def salary_dumps_def)
  from save_json_load_json_raises
    [where loads = salary_loads and dumps = salary_dumps and other = ExpenseTracker_init,
     OF a b c]
  show ?thesis using a unfolding saved by simp
qed

text \<open>The empty ledger does come back: the comprehension makes no call.\<close>

lemma save_json_load_json_empty:
  assumes "transactions self = []"
    and "files w filename \<noteq> Denied"
    and "loads (universal_newlines (dumps (JArr []))) = Some (JArr [])"
  shows "fst (snd (load_json loads other filename (snd (save_json dumps self filename w)))) =
     other\<lparr>transactions := []\<rparr>"
proof -
  have w: "open_write w filename = None"
    using assms(2) by (simp add: open_write_def split: node.splits)
  show ?thesis
    using assms(3)
    by (simp add: save_json_def w load_json_def load_json_body_def open_read_def assms(1))
qed


subsection \<open>C2\<close>

text \<open>
  Claim C2: \<open>save_csv\<close> followed by \<open>load_csv\<close> should reproduce the sequence, for
  arbitrary category text. It does not when a category holds a carriage return:
  \<open>save_csv\<close> opens its file with \<open>newline=""\<close> and the writer puts the category in
  quotes with the carriage return in it, but \<open>load_csv\<close> opens the file without
  \<open>newline=""\<close>, so the carriage return reaches the reader as a line feed. For the
  ledger of one expense of 5 in the category \<open>a\rb\<close>, and every \<open>str\<close> and \<open>float\<close> that
  render 5 as \<open>5\<close> and read it back, the load returns normally with the category
  \<open>a\nb\<close>.
\<close>

theorem save_csv_load_csv_carriage_return:
  assumes "py_str 5 = ''5''" and "py_float ''5'' = Some 5" and "files w filename \<noteq> Denied"
  shows "load_csv py_float other filename (snd (save_csv py_str cr_tracker filename w)) =
     (None, other\<lparr>transactions := transactions lf_tracker\<rparr>,
      (snd (save_csv py_str cr_tracker filename w))
        \<lparr>stdout := stdout w @ [''Data saved to '' @ filename, ''Data loaded from '' @ filename]\<rparr>)
     \<and> transactions lf_tracker \<noteq> transactions cr_tracker"
proof
  have w: "open_write w filename = None"
    using assms(3) by (simp add: open_write_def split: node.splits)
  have body: "load_csv_body py_float filename (snd (save_csv py_str cr_tracker filename w)) =
      Inr (transactions lf_tracker)"
    by (simp add: save_csv_def w load_csv_body_def open_read_def writer_defs cr_tracker_def
        reader_defs load_row_defs lf_tracker_def assms(1,2) [unfolded numeral_pyfloat]
        pyfloat_defs)
  show "load_csv py_float other filename (snd (save_csv py_str cr_tracker filename w)) =
     (None, other\<lparr>transactions := transactions lf_tracker\<rparr>,
      (snd (save_csv py_str cr_tracker filename w))
        \<lparr>stdout := stdout w @ [''Data saved to '' @ filename, ''Data loaded from '' @ filename]\<rparr>)"
    unfolding load_csv_def body by (simp add: save_csv_def w)
  show "transactions lf_tracker \<noteq> transactions cr_tracker"
    by (simp add: lf_tracker_def cr_tracker_def)
qed

text \<open>The same with the conversions for decimal digits, on a file system that is empty
  before.\<close>

theorem save_csv_load_csv_carriage_return_witness:
  "load_csv float_digits ExpenseTracker_init ''transactions.csv''
       (snd (save_csv str_int cr_tracker ''transactions.csv'' empty_world)) =
     (None, lf_tracker,
      (snd (save_csv str_int cr_tracker ''transactions.csv'' empty_world))
        \<lparr>stdout := [''Data saved to transactions.csv'', ''Data loaded from transactions.csv'']\<rparr>)
   \<and> lf_tracker \<noteq> cr_tracker"
proof -
  have c: "files empty_world ''transactions.csv'' \<noteq> Denied" by (simp add: empty_world_def)
  from save_csv_load_csv_carriage_return
    [where py_str = str_int and py_float = float_digits and other = ExpenseTracker_init,
     OF str_int_5 float_digits_5 c]
  show ?thesis
    by (simp add: ExpenseTracker_init_def lf_tracker_def cr_tracker_def empty_world_def)
qed


text \<open>Carriage returns apart, the file does give the ledger back: for every ledger of
  valid transactions whose categories and rendered amounts hold no carriage return and
  are within the reader's limit of 131072 characters a field, and whose rendered amounts
  \<open>float\<close> reads back, \<open>save_csv\<close> followed by \<open>load_csv\<close> returns normally with the
  sequence that was saved. Commas, quotes and line feeds in a category are covered.\<close>

lemma save_csv_load_csv_roundtrip:
  assumes "list_all (csv_safe py_str py_float) (transactions self)"
    and "files w filename \<noteq> Denied"
  shows "load_csv py_float other filename (snd (save_csv py_str self filename w)) =
     (None, other\<lparr>transactions := transactions self\<rparr>,
      (snd (save_csv py_str self filename w))
        \<lparr>stdout := stdout w @ [''Data saved to '' @ filename, ''Data loaded from '' @ filename]\<rparr>)"
proof -
  let ?rows = "map (csv_row py_str) (transactions self)"
  let ?text = "concat (map writerow (fieldnames # ?rows))"
  have w: "open_write w filename = None"
    using assms(2) by (simp add: open_write_def split: node.splits)
  have saved: "snd (save_csv py_str self filename w) =
      w\<lparr>files := (files w)(filename := File ?text),
        stdout := stdout w @ [''Data saved to '' @ filename]\<rparr>"
    by (simp add: save_csv_def w DictWriter_writerow_row comp_def)
  have "list_all row_ok (fieldnames # ?rows)"
    using assms(1) by (auto simp: list_all_iff row_ok_fieldnames row_ok_csv_row)
  then have rows: "reader_rows parse_reset (file_lines (universal_newlines ?text)) =
      (fieldnames # ?rows, None)"
    by (rule read_written_rows)
  have "filter (\<lambda>row. row \<noteq> []) ?rows = ?rows"
    by (simp add: filter_id_conv csv_row_def)
  with rows have dict: "DictReader (file_lines (universal_newlines ?text)) =
      (map (DictReader_row fieldnames) ?rows, None)"
    by (simp add: DictReader_def)
  have "comprehension (load_csv_row py_float)
      (map (\<lambda>t. DictReader_row fieldnames (csv_row py_str t)) (transactions self)) =
      Inr (transactions self)"
    using assms(1) by (intro comprehension_map_Inr) (auto simp: list_all_iff load_csv_row_csv_row)
  with dict have body: "load_csv_body py_float filename (snd (save_csv py_str self filename w)) =
      Inr (transactions self)"
    unfolding saved by (simp add: load_csv_body_def open_read_def comp_def)
  show ?thesis
    unfolding load_csv_def body by (simp add: saved)
qed

text \<open>The example ledger, and a ledger whose category holds a comma, quotes and a line
  feed.\<close>

lemma save_csv_load_csv_roundtrip_example:
  "fst (snd (load_csv float_digits ExpenseTracker_init ''transactions.csv''
       (snd (save_csv str_int example_tracker ''transactions.csv'' empty_world)))) =
     example_tracker
   \<and> fst (snd (load_csv float_digits ExpenseTracker_init ''transactions.csv''
       (snd (save_csv str_int quoted_tracker ''transactions.csv'' empty_world)))) =
     quoted_tracker"
proof -
  have d: "files empty_world ''transactions.csv'' \<noteq> Denied"
    by (simp add: empty_world_def)
  have s: "str_int 2500 = ''2500''" "str_int 300 = ''300''" "str_int 150 = ''150''"
    "str_int 200 = ''200''"
    by (simp_all add: numeral_pyfloat digit_chars_def)
  have f: "float_digits ''300'' = Some 300" "float_digits ''150'' = Some 150"
    "float_digits ''200'' = Some 200"
    by (simp_all add: float_digits_def digit_chars_def numeral_pyfloat)
  have p: "(0::pyfloat) < 2500" "(0::pyfloat) < 300" "(0::pyfloat) < 150" "(0::pyfloat) < 200"
    "(0::pyfloat) < 5"
    by (simp_all add: pyfloat_defs)
  have a: "list_all (csv_safe str_int float_digits) (transactions example_tracker)"
    by (simp add: example_tracker_def csv_safe_def valid_transaction_def field_limit_def
        s f p float_digits_2500)
  have b: "list_all (csv_safe str_int float_digits) (transactions quoted_tracker)"
    by (simp add: quoted_tracker_def csv_safe_def valid_transaction_def field_limit_def
        str_int_5 float_digits_5 p)
  from save_csv_load_csv_roundtrip [OF a d, of ExpenseTracker_init]
    save_csv_load_csv_roundtrip [OF b d, of ExpenseTracker_init]
  show ?thesis
    by (simp add: ExpenseTracker_init_def example_tracker_def quoted_tracker_def)
qed

subsection \<open>C3\<close>

text \<open>
  Claim C3: construction should succeed exactly when the kind is \<open>income\<close> or \<open>expense\<close>
  and the amount is above 0. The constructor checks \<open>amount <= 0\<close>, which is false of
  NaN as every comparison with NaN is, so \<open>Transaction("income", "salary", float("nan"))\<close>
  is constructed, with an amount that is not above 0. NaN is the one amount that gets
  through: construction succeeds exactly when the kind is one of the two (compared
  exactly) and the amount is above 0 or NaN. The rest of the claim holds: a kind outside
  the two fails with the \<open>ValueError\<close> about the type; one of the two kinds with an
  amount of 0 or below fails with the \<open>ValueError\<close> about the amount; the two exceptions
  differ; and on success \<open>to_dict\<close> returns the three given values.
\<close>

theorem Transaction_init_accepts_nan:
  "Transaction_init ''income'' ''salary'' NaN =
     Inr \<lparr>transaction_type = ''income'', category = ''salary'', amount = NaN\<rparr>
   \<and> \<not> (0::pyfloat) < NaN
   \<and> ((\<exists>t. Transaction_init k c a = Inr t) \<longleftrightarrow>
        (k \<in> {''income'', ''expense''} \<and> (0 < a \<or> a = NaN)))
   \<and> (k \<notin> {''income'', ''expense''} \<longrightarrow> Transaction_init k c a = Inl (ValueError type_message))
   \<and> (k \<in> {''income'', ''expense''} \<and> a \<le> 0 \<longrightarrow>
        Transaction_init k c a = Inl (ValueError amount_message))
   \<and> ValueError type_message \<noteq> ValueError amount_message
   \<and> (Transaction_init k c a = Inr t \<longrightarrow>
        to_dict t = [(''type'', JStr k), (''category'', JStr c), (''amount'', JNum a)])"
proof (intro conjI)
  show "Transaction_init ''income'' ''salary'' NaN =
     Inr \<lparr>transaction_type = ''income'', category = ''salary'', amount = NaN\<rparr>"
    by (simp add: Transaction_init_def pyfloat_NaN)
  show "\<not> (0::pyfloat) < NaN"
    by (rule pyfloat_NaN)
  show "(\<exists>t. Transaction_init k c a = Inr t) \<longleftrightarrow>
        (k \<in> {''income'', ''expense''} \<and> (0 < a \<or> a = NaN))"
    using pyfloat_less_not_le [of a] pyfloat_not_le_less [of a] pyfloat_NaN(1)
    by (auto simp: Transaction_init_def)
  show "k \<notin> {''income'', ''expense''} \<longrightarrow> Transaction_init k c a = Inl (ValueError type_message)"
    by (simp add: Transaction_init_def)
  show "k \<in> {''income'', ''expense''} \<and> a \<le> 0 \<longrightarrow>
        Transaction_init k c a = Inl (ValueError amount_message)"
    by (auto simp: Transaction_init_def)
  show "ValueError type_message \<noteq> ValueError amount_message"
    by (simp add: type_message_def amount_message_def)
  show "Transaction_init k c a = Inr t \<longrightarrow>
        to_dict t = [(''type'', JStr k), (''category'', JStr c), (''amount'', JNum a)]"
    by (auto simp: Transaction_init_def to_dict_def split: if_splits)
qed

text \<open>An expense that is constructed, a kind in the wrong case, and two amounts that
  are not positive.\<close>

theorem Transaction_init_accepts_nan_witness:
  "Transaction_init ''expense'' ''food'' 300 =
     Inr \<lparr>transaction_type = ''expense'', category = ''food'', amount = 300\<rparr>
   \<and> to_dict \<lparr>transaction_type = ''expense'', category = ''food'', amount = 300\<rparr> =
       [(''type'', JStr ''expense''), (''category'', JStr ''food''), (''amount'', JNum 300)]
   \<and> Transaction_init ''Income'' ''salary'' 300 = Inl (ValueError type_message)
   \<and> Transaction_init ''income'' ''salary'' 0 = Inl (ValueError amount_message)
   \<and> Transaction_init ''income'' ''salary'' (- 5) = Inl (ValueError amount_message)"
proof (intro conjI)
  let ?t = "\<lparr>transaction_type = ''expense'', category = ''food'', amount = 300\<rparr>"
  have good: "''expense'' \<in> {''income'', ''expense''} \<and> ((0::pyfloat) < 300 \<or> (300::pyfloat) = NaN)"
    by (simp add: pyfloat_defs)
  with Transaction_init_accepts_nan [of "''expense''" "''food''" 300 ?t]
  obtain u where u: "Transaction_init ''expense'' ''food'' 300 = Inr u" by auto
  then have "u = ?t" by (simp add: Transaction_init_def split: if_splits)
  with u show ok: "Transaction_init ''expense'' ''food'' 300 = Inr ?t" by simp
  with Transaction_init_accepts_nan [of "''expense''" "''food''" 300 ?t]
  show "to_dict ?t =
      [(''type'', JStr ''expense''), (''category'', JStr ''food''), (''amount'', JNum 300)]"
    by simp
  have kind: "''Income'' \<notin> {''income'', ''expense''}" by simp
  with Transaction_init_accepts_nan [of "''Income''" "''salary''" 300]
  show "Transaction_init ''Income'' ''salary'' 300 = Inl (ValueError type_message)" by simp
  have zero: "''income'' \<in> {''income'', ''expense''} \<and> (0::pyfloat) \<le> 0"
    by (simp add: pyfloat_defs)
  with Transaction_init_accepts_nan [of "''income''" "''salary''" 0]
  show "Transaction_init ''income'' ''salary'' 0 = Inl (ValueError amount_message)" by simp
  have neg: "''income'' \<in> {''income'', ''expense''} \<and> (- 5::pyfloat) \<le> 0"
    by (simp add: pyfloat_defs)
  with Transaction_init_accepts_nan [of "''income''" "''salary''" "- 5"]
  show "Transaction_init ''income'' ''salary'' (- 5) = Inl (ValueError amount_message)" by simp
qed


subsection \<open>C4\<close>

text \<open>
  Claim C4: for every ledger and every triple, \<open>add_transaction\<close> either appends exactly
  the transaction that the constructor returns at the end of the sequence, leaving what
  was there in place and in order, or raises the constructor's exception and leaves the
  tracker as it was.
\<close>

theorem add_transaction_atomic:
  "(\<exists>t. Transaction_init k c a = Inr t \<and>
        add_transaction self k c a = (None, self\<lparr>transactions := transactions self @ [t]\<rparr>))
   \<or> (\<exists>e. Transaction_init k c a = Inl e \<and> add_transaction self k c a = (Some e, self))"
  by (cases "Transaction_init k c a") (simp_all add: add_transaction_def)

text \<open>An addition that succeeds and one that fails, on the example ledger.\<close>

theorem add_transaction_atomic_witness:
  "add_transaction example_tracker ''expense'' ''rent'' 800 =
     (None, example_tracker\<lparr>transactions := transactions example_tracker @
        [\<lparr>transaction_type = ''expense'', category = ''rent'', amount = 800\<rparr>]\<rparr>)
   \<and> add_transaction example_tracker ''expense'' ''rent'' 0 =
     (Some (ValueError amount_message), example_tracker)"
proof -
  have ok: "Transaction_init ''expense'' ''rent'' 800 =
      Inr \<lparr>transaction_type = ''expense'', category = ''rent'', amount = 800\<rparr>"
    by (simp add: Transaction_init_def pyfloat_defs)
  have bad: "Transaction_init ''expense'' ''rent'' 0 = Inl (ValueError amount_message)"
    by (simp add: Transaction_init_def pyfloat_defs)
  from add_transaction_atomic [of "''expense''" "''rent''" 800 example_tracker] ok
  have one: "add_transaction example_tracker ''expense'' ''rent'' 800 =
     (None, example_tracker\<lparr>transactions := transactions example_tracker @
        [\<lparr>transaction_type = ''expense'', category = ''rent'', amount = 800\<rparr>]\<rparr>)"
    by auto
  from add_transaction_atomic [of "''expense''" "''rent''" 0 example_tracker] bad
  have two: "add_transaction example_tracker ''expense'' ''rent'' 0 =
     (Some (ValueError amount_message), example_tracker)"
    by auto
  from one two show ?thesis ..
qed


subsection \<open>C5\<close>

text \<open>
  Claim C5: \<open>calculate_balance\<close> is the sum of the amounts of the income entries minus the
  sum of the amounts of the expense entries; it is 0 on the empty ledger; and two ledgers
  that are permutations of each other have the same balance. (Amounts are exact here, so
  the tolerance the claim allows for floating-point sums is not needed.)
\<close>

theorem calculate_balance_correct:
  "calculate_balance self =
     sum_list (map amount (filter (\<lambda>t. transaction_type t = ''income'') (transactions self))) -
     sum_list (map amount (filter (\<lambda>t. transaction_type t = ''expense'') (transactions self)))
   \<and> calculate_balance \<lparr>transactions = []\<rparr> = 0
   \<and> (mset (transactions a) = mset (transactions b) \<longrightarrow>
        calculate_balance a = calculate_balance b)"
proof (intro conjI impI)
  show "calculate_balance self =
     sum_list (map amount (filter (\<lambda>t. transaction_type t = ''income'') (transactions self))) -
     sum_list (map amount (filter (\<lambda>t. transaction_type t = ''expense'') (transactions self)))"
    by (rule balance_sum_list)
  show "calculate_balance \<lparr>transactions = []\<rparr> = 0"
    by (simp add: balance_sum_list pyfloat_defs)
  assume "mset (transactions a) = mset (transactions b)"
  then show "calculate_balance a = calculate_balance b"
    by (simp add: balance_sum_list sum_list_filter_mset)
qed

text \<open>The example ledger and its reverse: both balances are 1850.\<close>

theorem calculate_balance_correct_witness:
  "mset (transactions example_tracker) = mset (transactions reversed_tracker)
   \<and> transactions example_tracker \<noteq> transactions reversed_tracker
   \<and> calculate_balance reversed_tracker = 1850
   \<and> calculate_balance example_tracker = 1850"
proof -
  have perm: "mset (transactions example_tracker) = mset (transactions reversed_tracker)"
    by (simp add: reversed_tracker_def)
  have diff: "transactions example_tracker \<noteq> transactions reversed_tracker"
    by (simp add: reversed_tracker_def example_tracker_def)
  from calculate_balance_correct [of example_tracker example_tracker reversed_tracker] perm
  have same: "calculate_balance example_tracker = calculate_balance reversed_tracker"
    and val: "calculate_balance example_tracker =
     sum_list (map amount (filter (\<lambda>t. transaction_type t = ''income'')
        (transactions example_tracker))) -
     sum_list (map amount (filter (\<lambda>t. transaction_type t = ''expense'')
        (transactions example_tracker)))"
    by blast+
  from val have "calculate_balance example_tracker = 1850"
    by (simp add: example_tracker_def pyfloat_defs)
  with same perm diff show ?thesis by simp
qed


subsection \<open>C6\<close>

text \<open>
  Claim C6: the keys of \<open>summary_by_category\<close> are distinct and are exactly the
  categories of the expense entries, compared as texts; a category is mapped to the sum
  of the amounts of the expense entries that have it, and a text that is the category of
  no expense entry is not a key; a ledger without expenses gives the empty dict.
\<close>

theorem summary_by_category_correct:
  "distinct (map fst (summary_by_category self))
   \<and> set (map fst (summary_by_category self)) =
       set (map category (filter (\<lambda>t. transaction_type t = ''expense'') (transactions self)))
   \<and> map_of (summary_by_category self) c =
       (if c \<in> set (map category
                   (filter (\<lambda>t. transaction_type t = ''expense'') (transactions self))) then
          Some (sum_list (map amount
                  (filter (\<lambda>t. transaction_type t = ''expense'' \<and> category t = c)
                          (transactions self))))
        else None)
   \<and> (filter (\<lambda>t. transaction_type t = ''expense'') (transactions self) = []
        \<longrightarrow> summary_by_category self = [])"
proof (intro conjI impI)
  show "distinct (map fst (summary_by_category self))"
    by (simp add: summary_by_category_def summary_loop_distinct)
  show keys: "set (map fst (summary_by_category self)) =
      set (map category (filter (\<lambda>t. transaction_type t = ''expense'') (transactions self)))"
    by (simp add: summary_by_category_def summary_loop_keys)
  show "map_of (summary_by_category self) c =
       (if c \<in> set (map category
                   (filter (\<lambda>t. transaction_type t = ''expense'') (transactions self))) then
          Some (sum_list (map amount
                  (filter (\<lambda>t. transaction_type t = ''expense'' \<and> category t = c)
                          (transactions self))))
        else None)"
  proof -
    have "dict_get (summary_by_category self) c 0 =
        sum_list (map amount
          (filter (\<lambda>t. transaction_type t = ''expense'' \<and> category t = c)
                  (transactions self)))"
      by (simp add: summary_by_category_def summary_loop_lookup dict_get_Nil)
    with keys show ?thesis
      by (simp add: map_of_dict_get [of "summary_by_category self"])
  qed
  assume "filter (\<lambda>t. transaction_type t = ''expense'') (transactions self) = []"
  with keys have "set (map fst (summary_by_category self)) = {}" by simp
  then show "summary_by_category self = []" by simp
qed

text \<open>The example ledger (whose income is not in the summary, and where \<open>Food\<close> is not
  \<open>food\<close>) and a ledger of one income.\<close>

theorem summary_by_category_correct_witness:
  "summary_by_category example_tracker =
     [(''food'', 300), (''transportation'', 150), (''entertainment'', 200)]
   \<and> map_of (summary_by_category example_tracker) ''food'' = Some 300
   \<and> map_of (summary_by_category example_tracker) ''Food'' = None
   \<and> map_of (summary_by_category example_tracker) ''salary'' = None
   \<and> filter (\<lambda>t. transaction_type t = ''expense'') (transactions salary_tracker) = []
   \<and> summary_by_category salary_tracker = []"
proof (intro conjI)
  show "summary_by_category example_tracker =
     [(''food'', 300), (''transportation'', 150), (''entertainment'', 200)]"
    by (simp add: summary_by_category_def example_tracker_def dict_get_def pyfloat_defs)
  from summary_by_category_correct [of example_tracker "''food''"]
  show "map_of (summary_by_category example_tracker) ''food'' = Some 300"
    by (simp add: example_tracker_def pyfloat_defs)
  from summary_by_category_correct [of example_tracker "''Food''"]
  show "map_of (summary_by_category example_tracker) ''Food'' = None"
    by (simp add: example_tracker_def)
  from summary_by_category_correct [of example_tracker "''salary''"]
  show "map_of (summary_by_category example_tracker) ''salary'' = None"
    by (simp add: example_tracker_def)
  show none: "filter (\<lambda>t. transaction_type t = ''expense'') (transactions salary_tracker) = []"
    by (simp add: salary_tracker_def)
  with summary_by_category_correct [of salary_tracker]
  show "summary_by_category salary_tracker = []" by simp
qed

subsection \<open>C7\<close>

text \<open>
  Claim C7: when the path names no file, \<open>load_json\<close> and \<open>load_csv\<close> return normally,
  leave the tracker with an empty sequence and print their "not found" line. That
  outcome belongs to the missing file alone. When the path names something, neither
  method prints that line and neither raises \<open>FileNotFoundError\<close>, and what each does is
  fixed by what is there: a file that cannot be opened raises \<open>PermissionError\<close>; of a
  file that holds a text, \<open>load_json\<close> raises \<open>JSONDecodeError\<close> when \<open>json.load\<close> cannot
  parse it, the \<open>TypeError\<close> of the \<open>for\<close> when the document cannot be iterated, and the
  exception of the first item that the constructor refuses, and \<open>load_csv\<close> raises the
  exception of the first row that fails and, when no row fails, the error of the csv
  reader, if it has one. Every exception leaves the method with the tracker and the
  console as they were. Only when nothing fails is the sequence set, and the line
  printed is "Data loaded".
\<close>

theorem load_missing_file:
  "(files w filename = Absent \<longrightarrow>
      load_json loads self filename w =
        (None, self\<lparr>transactions := []\<rparr>,
         w\<lparr>stdout := stdout w @ [''JSON file not found. Starting with empty list.'']\<rparr>)
      \<and> load_csv py_float self filename w =
        (None, self\<lparr>transactions := []\<rparr>,
         w\<lparr>stdout := stdout w @ [''CSV file not found. Starting with empty list.'']\<rparr>))
   \<and> (files w filename \<noteq> Absent \<longrightarrow>
      stdout (snd (snd (load_json loads self filename w))) \<noteq>
        stdout w @ [''JSON file not found. Starting with empty list.'']
      \<and> stdout (snd (snd (load_csv py_float self filename w))) \<noteq>
        stdout w @ [''CSV file not found. Starting with empty list.''])
   \<and> fst (load_json loads self filename w) \<noteq> Some FileNotFoundError
   \<and> fst (load_csv py_float self filename w) \<noteq> Some FileNotFoundError
   \<and> (files w filename = Denied \<longrightarrow>
      load_json loads self filename w = (Some PermissionError, self, w)
      \<and> load_csv py_float self filename w = (Some PermissionError, self, w))
   \<and> (files w filename = File text \<longrightarrow>
      load_json loads self filename w =
        (case loads (universal_newlines text) of
           None \<Rightarrow> (Some JSONDecodeError, self, w)
         | Some data \<Rightarrow>
             (case py_iter data of
                Inl e \<Rightarrow> (Some e, self, w)
              | Inr items \<Rightarrow>
                  (case comprehension Transaction_kwargs items of
                     Inl e \<Rightarrow> (Some e, self, w)
                   | Inr ts \<Rightarrow>
                       (None, self\<lparr>transactions := ts\<rparr>,
                        w\<lparr>stdout := stdout w @ [''Data loaded from '' @ filename]\<rparr>)))))
   \<and> (files w filename = File text
       \<and> DictReader (file_lines (universal_newlines text)) = (rows, err) \<longrightarrow>
      load_csv py_float self filename w =
        (case comprehension (load_csv_row py_float) rows of
           Inl e \<Rightarrow> (Some e, self, w)
         | Inr ts \<Rightarrow>
             (case err of
                Some e \<Rightarrow> (Some e, self, w)
              | None \<Rightarrow>
                  (None, self\<lparr>transactions := ts\<rparr>,
                   w\<lparr>stdout := stdout w @ [''Data loaded from '' @ filename]\<rparr>))))"
proof (intro conjI impI)
  assume "files w filename = Absent"
  then show "load_json loads self filename w =
        (None, self\<lparr>transactions := []\<rparr>,
         w\<lparr>stdout := stdout w @ [''JSON file not found. Starting with empty list.'']\<rparr>)"
    and "load_csv py_float self filename w =
        (None, self\<lparr>transactions := []\<rparr>,
         w\<lparr>stdout := stdout w @ [''CSV file not found. Starting with empty list.'']\<rparr>)"
    by (rule load_json_absent, rule load_csv_absent)
next
  assume present: "files w filename \<noteq> Absent"
  from load_json_present [OF present, of loads self]
  show "stdout (snd (snd (load_json loads self filename w))) \<noteq>
        stdout w @ [''JSON file not found. Starting with empty list.'']"
    by auto
  from load_csv_present [OF present, of py_float self]
  show "stdout (snd (snd (load_csv py_float self filename w))) \<noteq>
        stdout w @ [''CSV file not found. Starting with empty list.'']"
    by auto
next
  show "fst (load_json loads self filename w) \<noteq> Some FileNotFoundError"
    by (simp add: load_json_def split: sum.splits)
  show "fst (load_csv py_float self filename w) \<noteq> Some FileNotFoundError"
    by (simp add: load_csv_def split: sum.splits)
next
  assume "files w filename = Denied"
  then show "load_json loads self filename w = (Some PermissionError, self, w)"
    and "load_csv py_float self filename w = (Some PermissionError, self, w)"
    using load_denied [of w filename loads self py_float] by simp_all
next
  assume f: "files w filename = File text"
  then have present: "files w filename \<noteq> Absent" by simp
  show "load_json loads self filename w =
        (case loads (universal_newlines text) of
           None \<Rightarrow> (Some JSONDecodeError, self, w)
         | Some data \<Rightarrow>
             (case py_iter data of
                Inl e \<Rightarrow> (Some e, self, w)
              | Inr items \<Rightarrow>
                  (case comprehension Transaction_kwargs items of
                     Inl e \<Rightarrow> (Some e, self, w)
                   | Inr ts \<Rightarrow>
                       (None, self\<lparr>transactions := ts\<rparr>,
                        w\<lparr>stdout := stdout w @ [''Data loaded from '' @ filename]\<rparr>))))"
  proof (cases "load_json_body loads filename w")
    case (Inl e)
    from load_json_body_Inl [OF Inl present, of self] Inl f show ?thesis
      by (auto simp: load_json_body_def open_read_def split: option.splits sum.splits)
  next
    case (Inr ts)
    then have "load_json loads self filename w =
        (None, self\<lparr>transactions := ts\<rparr>,
         w\<lparr>stdout := stdout w @ [''Data loaded from '' @ filename]\<rparr>)"
      by (simp add: load_json_def)
    with Inr f show ?thesis
      by (auto simp: load_json_body_def open_read_def split: option.splits sum.splits)
  qed
next
  assume a: "files w filename = File text
       \<and> DictReader (file_lines (universal_newlines text)) = (rows, err)"
  then have present: "files w filename \<noteq> Absent" by simp
  from a have body: "load_csv_body py_float filename w =
       (case comprehension (load_csv_row py_float) rows of
          Inl e \<Rightarrow> Inl e
        | Inr ts \<Rightarrow> (case err of Some e \<Rightarrow> Inl e | None \<Rightarrow> Inr ts))"
    by (simp add: load_csv_body_rows [of w filename "text" rows err])
  show "load_csv py_float self filename w =
        (case comprehension (load_csv_row py_float) rows of
           Inl e \<Rightarrow> (Some e, self, w)
         | Inr ts \<Rightarrow>
             (case err of
                Some e \<Rightarrow> (Some e, self, w)
              | None \<Rightarrow>
                  (None, self\<lparr>transactions := ts\<rparr>,
                   w\<lparr>stdout := stdout w @ [''Data loaded from '' @ filename]\<rparr>)))"
  proof (cases "load_csv_body py_float filename w")
    case (Inl e)
    from load_csv_body_Inl [OF Inl present, of self] Inl body show ?thesis
      by (auto split: option.splits sum.splits)
  next
    case (Inr ts)
    then have "load_csv py_float self filename w =
        (None, self\<lparr>transactions := ts\<rparr>,
         w\<lparr>stdout := stdout w @ [''Data loaded from '' @ filename]\<rparr>)"
      by (simp add: load_csv_def)
    with Inr body show ?thesis
      by (auto split: option.splits sum.splits)
  qed
qed


text \<open>No file; a file that cannot be opened; a CSV file and the texts \<open>null\<close> and \<open>[]\<close>
  read as JSON, and the file that \<open>save_json\<close> writes for a ledger of one income; and
  three CSV files: one whose first row has an unknown kind, one that loads, and one with
  a field beyond the limit of the reader.\<close>

theorem load_missing_file_witness:
  "load_json salary_loads example_tracker ''transactions.json'' empty_world =
     (None, ExpenseTracker_init,
      \<lparr>files = (\<lambda>_. Absent),
        stdout = [''JSON file not found. Starting with empty list.'']\<rparr>)
   \<and> load_csv float_digits example_tracker ''transactions.csv'' empty_world =
     (None, ExpenseTracker_init,
      \<lparr>files = (\<lambda>_. Absent),
        stdout = [''CSV file not found. Starting with empty list.'']\<rparr>)
   \<and> load_json salary_loads example_tracker ''transactions.json'' denied_world =
     (Some PermissionError, example_tracker, denied_world)
   \<and> load_csv float_digits example_tracker ''transactions.csv'' denied_world =
     (Some PermissionError, example_tracker, denied_world)
   \<and> load_json literal_loads example_tracker ''transactions.json'' (file_world two_bad_rows) =
     (Some JSONDecodeError, example_tracker, file_world two_bad_rows)
   \<and> load_json literal_loads example_tracker ''transactions.json'' (file_world ''null'') =
     (Some (TypeError (quoted ''NoneType'' @ '' object is not iterable'')),
      example_tracker, file_world ''null'')
   \<and> load_json salary_loads example_tracker ''transactions.json'' (file_world salary_text) =
     (Some (TypeError (''__init__() got an unexpected keyword argument '' @ quoted ''type'')),
      example_tracker, file_world salary_text)
   \<and> load_json literal_loads example_tracker ''transactions.json'' (file_world ''[]'') =
     (None, ExpenseTracker_init,
      \<lparr>files = (\<lambda>_. File ''[]''), stdout = [''Data loaded from transactions.json'']\<rparr>)
   \<and> load_csv float_digits example_tracker ''transactions.csv'' (file_world two_bad_rows) =
     (Some (ValueError type_message), example_tracker, file_world two_bad_rows)
   \<and> load_csv float_digits example_tracker ''transactions.csv'' (file_world salary_rows) =
     (None, salary_tracker,
      \<lparr>files = (\<lambda>_. File salary_rows), stdout = [''Data loaded from transactions.csv'']\<rparr>)
   \<and> load_csv float_digits example_tracker ''transactions.csv'' (file_world long_field_rows) =
     (Some (csv_Error ''field larger than field limit (131072)''),
      example_tracker, file_world long_field_rows)"
proof (intro conjI)
  note t = load_missing_file
  have absent: "files empty_world ''transactions.json'' = Absent"
    "files empty_world ''transactions.csv'' = Absent"
    by (simp_all add: empty_world_def)
  from absent(1) t [of empty_world "''transactions.json''" salary_loads example_tracker]
  show "load_json salary_loads example_tracker ''transactions.json'' empty_world =
     (None, ExpenseTracker_init,
      \<lparr>files = (\<lambda>_. Absent),
        stdout = [''JSON file not found. Starting with empty list.'']\<rparr>)"
    by (simp add: empty_world_def example_tracker_def ExpenseTracker_init_def)
  from absent(2) t [of empty_world "''transactions.csv''" _ example_tracker float_digits]
  show "load_csv float_digits example_tracker ''transactions.csv'' empty_world =
     (None, ExpenseTracker_init,
      \<lparr>files = (\<lambda>_. Absent),
        stdout = [''CSV file not found. Starting with empty list.'']\<rparr>)"
    by (simp add: empty_world_def example_tracker_def ExpenseTracker_init_def)
  have denied: "files denied_world ''transactions.json'' = Denied"
    "files denied_world ''transactions.csv'' = Denied"
    by (simp_all add: denied_world_def)
  from denied(1) t [of denied_world "''transactions.json''" salary_loads example_tracker]
  show "load_json salary_loads example_tracker ''transactions.json'' denied_world =
     (Some PermissionError, example_tracker, denied_world)"
    by simp
  from denied(2) t [of denied_world "''transactions.csv''" _ example_tracker float_digits]
  show "load_csv float_digits example_tracker ''transactions.csv'' denied_world =
     (Some PermissionError, example_tracker, denied_world)"
    by simp
  have decode: "files (file_world two_bad_rows) ''transactions.json'' = File two_bad_rows"
    "literal_loads (universal_newlines two_bad_rows) = None"
    by (simp_all add: file_world_def two_bad_rows_def literal_loads_def)
  with t [of "file_world two_bad_rows" "''transactions.json''" literal_loads
      example_tracker _ two_bad_rows]
  show "load_json literal_loads example_tracker ''transactions.json'' (file_world two_bad_rows) =
     (Some JSONDecodeError, example_tracker, file_world two_bad_rows)"
    by simp
  have null: "files (file_world ''null'') ''transactions.json'' = File ''null''"
    "literal_loads (universal_newlines ''null'') = Some JNull"
    by (simp_all add: file_world_def literal_loads_def)
  with t [of "file_world ''null''" "''transactions.json''" literal_loads
      example_tracker _ "''null''"]
  show "load_json literal_loads example_tracker ''transactions.json'' (file_world ''null'') =
     (Some (TypeError (quoted ''NoneType'' @ '' object is not iterable'')),
      example_tracker, file_world ''null'')"
    by simp
  have nl: "universal_newlines salary_text = salary_text"
    by (simp add: salary_text_def)
  have item: "files (file_world salary_text) ''transactions.json'' = File salary_text"
    "salary_loads (universal_newlines salary_text) = Some salary_doc"
    unfolding nl by (simp_all add: file_world_def salary_loads_def)
  have refused: "comprehension Transaction_kwargs
      [JObj [(''type'', JStr ''income''), (''category'', JStr ''salary''), (''amount'', JNum 2500)]] =
      Inl (TypeError (''__init__() got an unexpected keyword argument '' @ quoted ''type''))"
    by (simp add: Transaction_kwargs_def init_params_def)
  from item refused t [of "file_world salary_text" "''transactions.json''" salary_loads
      example_tracker _ salary_text]
  show "load_json salary_loads example_tracker ''transactions.json'' (file_world salary_text) =
     (Some (TypeError (''__init__() got an unexpected keyword argument '' @ quoted ''type'')),
      example_tracker, file_world salary_text)"
    by (simp add: salary_doc_def)
  have empty: "files (file_world ''[]'') ''transactions.json'' = File ''[]''"
    "literal_loads (universal_newlines ''[]'') = Some (JArr [])"
    by (simp_all add: file_world_def literal_loads_def)
  with t [of "file_world ''[]''" "''transactions.json''" literal_loads
      example_tracker _ "''[]''"]
  show "load_json literal_loads example_tracker ''transactions.json'' (file_world ''[]'') =
     (None, ExpenseTracker_init,
      \<lparr>files = (\<lambda>_. File ''[]''), stdout = [''Data loaded from transactions.json'']\<rparr>)"
    by (simp add: file_world_def example_tracker_def ExpenseTracker_init_def)
  let ?rows = "fst (DictReader (file_lines (universal_newlines two_bad_rows)))"
  let ?err = "snd (DictReader (file_lines (universal_newlines two_bad_rows)))"
  have row: "files (file_world two_bad_rows) ''transactions.csv'' = File two_bad_rows
      \<and> DictReader (file_lines (universal_newlines two_bad_rows)) = (?rows, ?err)"
    "comprehension (load_csv_row float_digits) ?rows = Inl (ValueError type_message)"
    by (simp_all add: file_world_def two_bad_rows_def reader_defs load_row_defs float_digits_1)
  with t [of "file_world two_bad_rows" "''transactions.csv''" _
      example_tracker float_digits two_bad_rows ?rows ?err]
  show "load_csv float_digits example_tracker ''transactions.csv'' (file_world two_bad_rows) =
     (Some (ValueError type_message), example_tracker, file_world two_bad_rows)"
    by simp
  let ?rows = "fst (DictReader (file_lines (universal_newlines salary_rows)))"
  let ?err = "snd (DictReader (file_lines (universal_newlines salary_rows)))"
  have good: "files (file_world salary_rows) ''transactions.csv'' = File salary_rows
      \<and> DictReader (file_lines (universal_newlines salary_rows)) = (?rows, ?err)"
    "comprehension (load_csv_row float_digits) ?rows = Inr (transactions salary_tracker)"
    "?err = None"
    by (simp_all add: file_world_def salary_rows_def reader_defs load_row_defs float_digits_2500
        salary_tracker_def pyfloat_defs)
  with t [of "file_world salary_rows" "''transactions.csv''" _
      example_tracker float_digits salary_rows ?rows ?err]
  show "load_csv float_digits example_tracker ''transactions.csv'' (file_world salary_rows) =
     (None, salary_tracker,
      \<lparr>files = (\<lambda>_. File salary_rows), stdout = [''Data loaded from transactions.csv'']\<rparr>)"
    by (simp add: file_world_def example_tracker_def salary_tracker_def)
  have long: "files (file_world long_field_rows) ''transactions.csv'' = File long_field_rows
      \<and> DictReader (file_lines (universal_newlines long_field_rows)) =
          ([], Some (csv_Error ''field larger than field limit (131072)''))"
    by (simp add: file_world_def DictReader_long_field)
  with t [of "file_world long_field_rows" "''transactions.csv''" _
      example_tracker float_digits long_field_rows "[]"
      "Some (csv_Error ''field larger than field limit (131072)'')"]
  show "load_csv float_digits example_tracker ''transactions.csv'' (file_world long_field_rows) =
     (Some (csv_Error ''field larger than field limit (131072)''),
      example_tracker, file_world long_field_rows)"
    by simp
qed


subsection \<open>C8\<close>





subsection \<open>C9\<close>

text \<open>
  Claim C9: every transaction of the sequence should have one of the two kinds and an
  amount above 0, whatever the operations that were called. The constructor lets NaN
  through (its check \<open>amount <= 0\<close> is false of NaN), and so do the three operations that
  call it: on a new tracker, \<open>add_transaction("expense", "food", float("nan"))\<close> returns
  normally and leaves a ledger that breaks the invariant; so does \<open>load_csv\<close> on a file
  with the row \<open>expense,food,nan\<close>, for every \<open>float\<close> that reads \<open>nan\<close> as NaN, and so
  does \<open>load_json\<close> on a document that holds NaN under the names of the parameters.

  What the operations do keep is the invariant of the constructor's own check: every
  transaction has one of the two kinds and an amount that is not \<open>\<le> 0\<close>. The two
  invariants differ on NaN alone.
\<close>

theorem ledger_invariant_broken_by_nan:
  "ledger_invariant ExpenseTracker_init
   \<and> add_transaction ExpenseTracker_init ''expense'' ''food'' NaN = (None, nan_tracker)
   \<and> \<not> ledger_invariant nan_tracker
   \<and> (py_float ''nan'' = Some NaN \<longrightarrow>
        load_csv py_float ExpenseTracker_init filename (file_world nan_rows) =
          (None, nan_tracker,
           (file_world nan_rows)\<lparr>stdout := [''Data loaded from '' @ filename]\<rparr>))
   \<and> (loads (universal_newlines text) = Some nan_doc \<longrightarrow>
        load_json loads ExpenseTracker_init filename (file_world text) =
          (None, nan_tracker,
           (file_world text)\<lparr>stdout := [''Data loaded from '' @ filename]\<rparr>))
   \<and> ledger_accepted ExpenseTracker_init
   \<and> (ledger_accepted self \<longrightarrow> ledger_accepted (snd (add_transaction self k c a)))
   \<and> (ledger_accepted self \<longrightarrow> ledger_accepted (fst (snd (load_json loads self filename w))))
   \<and> (ledger_accepted self \<longrightarrow>
        ledger_accepted (fst (snd (load_csv py_float self filename w))))
   \<and> (ledger_invariant self \<longleftrightarrow>
        ledger_accepted self \<and> list_all (\<lambda>t. amount t \<noteq> NaN) (transactions self))"
proof (intro conjI impI)
  show "ledger_invariant ExpenseTracker_init"
    by (simp add: ledger_invariant_def ExpenseTracker_init_def)
  show "add_transaction ExpenseTracker_init ''expense'' ''food'' NaN = (None, nan_tracker)"
    by (simp add: add_transaction_def Transaction_init_def pyfloat_NaN ExpenseTracker_init_def
        nan_tracker_def)
  show "\<not> ledger_invariant nan_tracker"
    by (simp add: ledger_invariant_def nan_tracker_def valid_transaction_def pyfloat_NaN)
  show "load_csv py_float ExpenseTracker_init filename (file_world nan_rows) =
          (None, nan_tracker,
           (file_world nan_rows)\<lparr>stdout := [''Data loaded from '' @ filename]\<rparr>)"
    if "py_float ''nan'' = Some NaN"
    using that
    by (simp add: load_csv_def load_csv_body_def open_read_def file_world_def nan_rows_def
        reader_defs load_row_defs pyfloat_NaN ExpenseTracker_init_def nan_tracker_def)
  show "load_json loads ExpenseTracker_init filename (file_world text) =
          (None, nan_tracker,
           (file_world text)\<lparr>stdout := [''Data loaded from '' @ filename]\<rparr>)"
    if "loads (universal_newlines text) = Some nan_doc"
    using that
    by (simp add: load_json_def load_json_body_def open_read_def file_world_def nan_doc_def
        Transaction_kwargs_def init_params_def Transaction_call_def Transaction_init_def
        pyfloat_NaN ExpenseTracker_init_def nan_tracker_def)
  show "ledger_accepted ExpenseTracker_init"
    by (simp add: ledger_accepted_def ExpenseTracker_init_def)
  show "ledger_accepted (snd (add_transaction self k c a))" if "ledger_accepted self"
    using that by (rule add_transaction_accepted)
  show "ledger_accepted (fst (snd (load_json loads self filename w)))" if "ledger_accepted self"
    using that by (rule load_json_accepted)
  show "ledger_accepted (fst (snd (load_csv py_float self filename w)))"
    if "ledger_accepted self"
    using that by (rule load_csv_accepted)
  show "ledger_invariant self \<longleftrightarrow>
        ledger_accepted self \<and> list_all (\<lambda>t. amount t \<noteq> NaN) (transactions self)"
    by (auto simp: ledger_invariant_def ledger_accepted_def list_all_iff accepted_valid)
qed

text \<open>The two loads with \<open>float_digits\<close> and \<open>nan_loads\<close>, and the example ledger, which
  satisfies both invariants, under an addition that succeeds, one that fails, a load
  that raises and a load that returns.\<close>

theorem ledger_invariant_broken_by_nan_witness:
  "load_csv float_digits ExpenseTracker_init ''transactions.csv'' (file_world nan_rows) =
     (None, nan_tracker,
      \<lparr>files = (\<lambda>_. File nan_rows), stdout = [''Data loaded from transactions.csv'']\<rparr>)
   \<and> load_json nan_loads ExpenseTracker_init ''transactions.json'' (file_world nan_text) =
     (None, nan_tracker,
      \<lparr>files = (\<lambda>_. File nan_text), stdout = [''Data loaded from transactions.json'']\<rparr>)
   \<and> ledger_invariant example_tracker
   \<and> ledger_accepted example_tracker
   \<and> ledger_accepted (snd (add_transaction example_tracker ''expense'' ''rent'' 800))
   \<and> ledger_accepted (snd (add_transaction example_tracker ''rent'' ''expense'' (- 800)))
   \<and> ledger_accepted
        (fst (snd (load_json salary_loads example_tracker ''transactions.json''
                     (file_world salary_text))))
   \<and> ledger_accepted
        (fst (snd (load_csv float_digits example_tracker ''transactions.csv''
                     (file_world salary_rows))))
   \<and> fst (snd (load_csv float_digits example_tracker ''transactions.csv''
                  (file_world salary_rows))) = salary_tracker"
proof -
  have nl: "universal_newlines nan_text = nan_text"
    by (simp add: nan_text_def)
  have js: "nan_loads (universal_newlines nan_text) = Some nan_doc"
    unfolding nl by (simp add: nan_loads_def)
  have acc: "ledger_accepted example_tracker"
    by (simp add: ledger_accepted_def example_tracker_def accepted_transaction_def pyfloat_defs)
  have nn: "list_all (\<lambda>t. amount t \<noteq> NaN) (transactions example_tracker)"
    by (simp add: example_tracker_def pyfloat_defs)
  note t = ledger_invariant_broken_by_nan
  from t [of float_digits "''transactions.csv''" nan_loads nan_text] float_digits_nan js
  have one: "load_csv float_digits ExpenseTracker_init ''transactions.csv'' (file_world nan_rows) =
     (None, nan_tracker,
      \<lparr>files = (\<lambda>_. File nan_rows), stdout = [''Data loaded from transactions.csv'']\<rparr>)"
    by (simp add: file_world_def)
  from t [of float_digits "''transactions.json''" nan_loads nan_text] js
  have two: "load_json nan_loads ExpenseTracker_init ''transactions.json'' (file_world nan_text) =
     (None, nan_tracker,
      \<lparr>files = (\<lambda>_. File nan_text), stdout = [''Data loaded from transactions.json'']\<rparr>)"
    by (simp add: file_world_def)
  from t [of _ _ _ _ example_tracker] acc nn
  have inv: "ledger_invariant example_tracker" by simp
  from t [of float_digits "''transactions.csv''" salary_loads _ example_tracker
      "''expense''" "''rent''" 800 "file_world salary_rows"] acc
  have three: "ledger_accepted (snd (add_transaction example_tracker ''expense'' ''rent'' 800))"
    and four: "ledger_accepted
        (fst (snd (load_csv float_digits example_tracker ''transactions.csv''
                     (file_world salary_rows))))"
    by simp_all
  have loaded: "fst (snd (load_csv float_digits example_tracker ''transactions.csv''
                  (file_world salary_rows))) = salary_tracker"
    by (simp add: load_csv_def load_csv_body_def open_read_def file_world_def salary_rows_def
        reader_defs load_row_defs float_digits_2500 pyfloat_defs example_tracker_def
        salary_tracker_def)
  from t [of float_digits "''transactions.json''" salary_loads _ example_tracker
      "''rent''" "''expense''" "- 800" "file_world salary_text"] acc
  have five: "ledger_accepted (snd (add_transaction example_tracker ''rent'' ''expense'' (- 800)))"
    and six: "ledger_accepted
        (fst (snd (load_json salary_loads example_tracker ''transactions.json''
                     (file_world salary_text))))"
    by simp_all
  from one two inv acc three four five six loaded show ?thesis by simp
qed


subsection \<open>C10\<close>




end
